theory Spec2Isabelle
  imports Complex_Main "HOL-Library.Char_ord" "HOL-Library.List_Lexorder"
begin

section \<open>Handler registry: \<open>fluxer/cog.py\<close>\<close>

text \<open>
  Python strings are modelled by their UTF-8 encoding (\<open>string\<close>). The operations the
  registry performs on names (equality, \<open>startswith("_")\<close>, the ordering used by
  \<open>dir\<close>) agree on code points and on UTF-8 bytes.

  A member of the cog object is whatever \<open>getattr(self, name)\<close> returns. Discovery reads
  four things from it: whether it has the attribute \<open>__cog_command__\<close>, the attribute
  \<open>__cog_command_name__\<close> when set, and the same two for listeners. \<open>func\<close>
  identifies the underlying object. An untagged method or a plain attribute has both
  flags \<open>False\<close>.
\<close>

record 'f handler =
  func :: 'f
  cog_command :: bool
  cog_command_name :: "string option"
  cog_listener :: bool
  cog_listener_name :: "string option"

text \<open>
  The decorators \<open>Cog.command(name)\<close> and \<open>Cog.listener(name)\<close>: the inner
  \<open>decorator(func)\<close> sets the flag, and the name only when \<open>name is not None\<close>.
\<close>

definition command :: "string option \<Rightarrow> 'f handler \<Rightarrow> 'f handler" where
  "command name f =
     (let f1 = f\<lparr>cog_command := True\<rparr>
      in case name of None \<Rightarrow> f1 | Some n \<Rightarrow> f1\<lparr>cog_command_name := Some n\<rparr>)"

definition listener :: "string option \<Rightarrow> 'f handler \<Rightarrow> 'f handler" where
  "listener name f =
     (let f1 = f\<lparr>cog_listener := True\<rparr>
      in case name of None \<Rightarrow> f1 | Some n \<Rightarrow> f1\<lparr>cog_listener_name := Some n\<rparr>)"

text \<open>A plain function object, before any decorator has touched it.\<close>

definition plain :: "'f \<Rightarrow> 'f handler" where
  "plain f = \<lparr>func = f, cog_command = False, cog_command_name = None,
              cog_listener = False, cog_listener_name = None\<rparr>"

text \<open>
  The cog object. \<open>members\<close> lists the attributes that \<open>dir(self)\<close> and
  \<open>getattr(self, name)\<close> see when discovery runs, as pairs of a name and the attribute:
  the methods of the class in the order its body declares them, and with them whatever
  the instance inherits or holds (\<open>bot\<close>, \<open>cog_load\<close>, \<open>cog_unload\<close>, the two
  decorators), which the base class leaves untagged. \<open>commands\<close> and \<open>listeners\<close>
  are the dictionaries \<open>_commands\<close> and \<open>_listeners\<close>.
\<close>

record ('b, 'f) Cog =
  bot :: 'b
  members :: "(string \<times> 'f handler) list"
  commands :: "string \<rightharpoonup> 'f handler"
  listeners :: "string \<rightharpoonup> 'f handler list"

text \<open>
  \<open>dir(self)\<close> returns the attribute names without duplicates, sorted ascending;
  \<open>getattr(self, name)\<close> returns the binding the class body made last.
\<close>

definition dir_names :: "(string \<times> 'a) list \<Rightarrow> string list" where
  "dir_names ms = sort (remdups (map fst ms))"

definition getattr :: "(string \<times> 'a) list \<Rightarrow> string \<Rightarrow> 'a option" where
  "getattr ms name = map_of (rev ms) name"

definition startswith_underscore :: "string \<Rightarrow> bool" where
  "startswith_underscore name = (case name of [] \<Rightarrow> False | c # _ \<Rightarrow> c = CHR ''_'')"

text \<open>\<open>getattr(method, "__cog_command_name__", name)\<close> and its listener twin.\<close>

definition cmd_name :: "string \<Rightarrow> 'f handler \<Rightarrow> string" where
  "cmd_name name m = (case cog_command_name m of None \<Rightarrow> name | Some n \<Rightarrow> n)"

definition event_name :: "string \<Rightarrow> 'f handler \<Rightarrow> string" where
  "event_name name m = (case cog_listener_name m of None \<Rightarrow> name | Some n \<Rightarrow> n)"

text \<open>The body of the loop of \<open>_discover_handlers\<close> for one name.\<close>

definition discover_one :: "('b, 'f) Cog \<Rightarrow> string \<Rightarrow> ('b, 'f) Cog" where
  "discover_one cog name =
     (if startswith_underscore name then cog
      else case getattr (members cog) name of
        None \<Rightarrow> cog
      | Some m \<Rightarrow>
          (let cog1 = (if cog_command m
                       then cog\<lparr>commands := (commands cog)(cmd_name name m \<mapsto> m)\<rparr>
                       else cog)
           in if cog_listener m
              then (let ev = event_name name m;
                        old = (case listeners cog1 ev of None \<Rightarrow> [] | Some hs \<Rightarrow> hs)
                    in cog1\<lparr>listeners := (listeners cog1)(ev \<mapsto> old @ [m])\<rparr>)
              else cog1))"

fun discover_loop :: "('b, 'f) Cog \<Rightarrow> string list \<Rightarrow> ('b, 'f) Cog" where
  "discover_loop cog [] = cog"
| "discover_loop cog (name # names) = discover_loop (discover_one cog name) names"

definition discover_handlers :: "('b, 'f) Cog \<Rightarrow> ('b, 'f) Cog" where
  "discover_handlers cog = discover_loop cog (dir_names (members cog))"

text \<open>\<open>Cog.__init__\<close>: empty dictionaries, then discovery.\<close>

definition Cog_init :: "'b \<Rightarrow> (string \<times> 'f handler) list \<Rightarrow> ('b, 'f) Cog" where
  "Cog_init b ms =
     discover_handlers \<lparr>bot = b, members = ms, commands = Map.empty, listeners = Map.empty\<rparr>"

text \<open>
  The members discovery visits, in the order it visits them: the names of
  \<open>dir(self)\<close> that do not start with an underscore, each with its attribute.
\<close>

definition scan_names :: "(string \<times> 'f handler) list \<Rightarrow> string list \<Rightarrow> (string \<times> 'f handler) list" where
  "scan_names ms names =
     List.map_filter
       (\<lambda>name. if startswith_underscore name then None
               else map_option (Pair name) (getattr ms name))
       names"

definition scanned :: "(string \<times> 'f handler) list \<Rightarrow> (string \<times> 'f handler) list" where
  "scanned ms = scan_names ms (dir_names ms)"

definition command_hits :: "(string \<times> 'f handler) list \<Rightarrow> string \<Rightarrow> 'f handler list" where
  "command_hits sc c = map snd (filter (\<lambda>(n, m). cog_command m \<and> cmd_name n m = c) sc)"

definition listener_hits :: "(string \<times> 'f handler) list \<Rightarrow> string \<Rightarrow> 'f handler list" where
  "listener_hits sc e = map snd (filter (\<lambda>(n, m). cog_listener m \<and> event_name n m = e) sc)"

text \<open>
  The listeners for an event in the order the class body declares them: what the
  specification says the registered list is.
\<close>

definition declared_listeners :: "(string \<times> 'f handler) list \<Rightarrow> string \<Rightarrow> 'f handler list" where
  "declared_listeners ms e =
     map snd (filter (\<lambda>(n, m). \<not> startswith_underscore n \<and> cog_listener m \<and> event_name n m = e) ms)"

text \<open>
  Which names contribute a listener for event \<open>e\<close>, and which a command named
  \<open>c\<close>: the name is scanned (no leading underscore), and its attribute carries the
  tag and resolves to that name.
\<close>

definition is_listener_for :: "(string \<times> 'f handler) list \<Rightarrow> string \<Rightarrow> string \<Rightarrow> bool" where
  "is_listener_for ms e n \<longleftrightarrow> \<not> startswith_underscore n \<and>
     (case getattr ms n of None \<Rightarrow> False | Some m \<Rightarrow> cog_listener m \<and> event_name n m = e)"

definition is_command_for :: "(string \<times> 'f handler) list \<Rightarrow> string \<Rightarrow> string \<Rightarrow> bool" where
  "is_command_for ms c n \<longleftrightarrow> \<not> startswith_underscore n \<and>
     (case getattr ms n of None \<Rightarrow> False | Some m \<Rightarrow> cog_command m \<and> cmd_name n m = c)"

subsection \<open>Example cog classes\<close>

text \<open>
  \<^verbatim>\<open>
  class TwoListeners(Cog):
      @Cog.listener(name="on_message")
      async def zeta(self, message): ...
      @Cog.listener(name="on_message")
      async def alpha(self, message): ...
  \<close>
  Function objects are numbered in declaration order.
\<close>

definition two_listeners_cog :: "(string \<times> nat handler) list" where
  "two_listeners_cog =
     [(''zeta'', listener (Some ''on_message'') (plain 1)),
      (''alpha'', listener (Some ''on_message'') (plain 2))]"

text \<open>
  \<^verbatim>\<open>
  class Duplicates(Cog):
      @Cog.command(name="hi")
      async def first(self, message): ...
      @Cog.command(name="hi")
      async def second(self, message): ...
      @Cog.listener(name="on_message")
      async def log(self, message): ...
      @Cog.listener()
      async def on_message(self, message): ...
  \<close>
\<close>

definition duplicates_cog :: "(string \<times> nat handler) list" where
  "duplicates_cog =
     [(''first'', command (Some ''hi'') (plain 1)),
      (''second'', command (Some ''hi'') (plain 2)),
      (''log'', listener (Some ''on_message'') (plain 3)),
      (''on_message'', listener None (plain 4))]"

text \<open>
  \<^verbatim>\<open>
  class Greeter(Cog):
      @Cog.command(name="hi")
      async def hello(self, message): ...
      @Cog.command()
      async def ping(self, message): ...
      @Cog.command()
      @Cog.listener()
      async def _hidden(self, message): ...
  \<close>
\<close>

definition greeter_cog :: "(string \<times> nat handler) list" where
  "greeter_cog =
     [(''hello'', command (Some ''hi'') (plain 1)),
      (''ping'', command None (plain 2)),
      (''_hidden'', command None (listener None (plain 3)))]"

section \<open>Payloads and Python values\<close>

text \<open>
  A payload value is what decoding a JSON document yields (fractional numbers left out).
  A payload is a \<open>dict\<close> with string keys, kept as an association list whose first
  binding of a key is the one the dictionary holds.
\<close>

datatype pyvalue =
    PNone
  | PBool bool
  | PInt int
  | PStr string
  | PList "pyvalue list"
  | PDict "(string \<times> pyvalue) list"

type_synonym payload = "(string \<times> pyvalue) list"

text \<open>
  The exceptions that leave the modelled functions. \<open>Transport\<close> stands for whatever
  the HTTP client raises, \<open>OutOfRange\<close> for what \<open>datetime.fromtimestamp\<close> raises
  on a timestamp outside the years 1 to 9999 (\<open>ValueError\<close>, \<open>OverflowError\<close> or
  \<open>OSError\<close>, depending on the magnitude and the platform).
\<close>

datatype error =
    KeyError string
  | ValueError
  | TypeError
  | RuntimeError string
  | ZeroDivisionError
  | OverflowError
  | OutOfRange
  | Transport string

text \<open>Sequencing: the first exception raised ends the evaluation.\<close>

definition bind_err :: "error + 'a \<Rightarrow> ('a \<Rightarrow> error + 'b) \<Rightarrow> error + 'b" where
  "bind_err r f = (case r of Inl e \<Rightarrow> Inl e | Inr x \<Rightarrow> f x)"

text \<open>A list comprehension \<open>[f(x) for x in xs]\<close> whose body can raise.\<close>

fun map_err :: "('a \<Rightarrow> error + 'b) \<Rightarrow> 'a list \<Rightarrow> error + 'b list" where
  "map_err f [] = Inr []"
| "map_err f (x # xs) =
     (case f x of
        Inl e \<Rightarrow> Inl e
      | Inr y \<Rightarrow> (case map_err f xs of Inl e \<Rightarrow> Inl e | Inr ys \<Rightarrow> Inr (y # ys)))"

text \<open>\<open>data[key]\<close>, \<open>data.get(key)\<close> and \<open>data.get(key, default)\<close>.\<close>

definition item :: "payload \<Rightarrow> string \<Rightarrow> error + pyvalue" where
  "item data key = (case map_of data key of None \<Rightarrow> Inl (KeyError key) | Some v \<Rightarrow> Inr v)"

definition get_default :: "payload \<Rightarrow> string \<Rightarrow> pyvalue \<Rightarrow> pyvalue" where
  "get_default data key d = (case map_of data key of None \<Rightarrow> d | Some v \<Rightarrow> v)"

definition get :: "payload \<Rightarrow> string \<Rightarrow> pyvalue" where
  "get data key = get_default data key PNone"

text \<open>The dictionary without a key.\<close>

definition without_key :: "string \<Rightarrow> payload \<Rightarrow> payload" where
  "without_key key data = filter (\<lambda>(k, v). k \<noteq> key) data"

text \<open>Python's truth value of a payload value, as \<open>if x\<close> tests it.\<close>

fun truthy :: "pyvalue \<Rightarrow> bool" where
  "truthy PNone = False"
| "truthy (PBool b) = b"
| "truthy (PInt i) = (i \<noteq> 0)"
| "truthy (PStr s) = (s \<noteq> [])"
| "truthy (PList xs) = (xs \<noteq> [])"
| "truthy (PDict kvs) = (kvs \<noteq> [])"

text \<open>
  The builtin \<open>int(x)\<close>. How Python reads a string as an integer is not part of the
  repository: it is the parameter \<open>str_to_int\<close>, \<open>None\<close> where \<open>int\<close> raises
  \<open>ValueError\<close>.
\<close>

fun py_int :: "(string \<Rightarrow> int option) \<Rightarrow> pyvalue \<Rightarrow> error + int" where
  "py_int str_to_int (PInt i) = Inr i"
| "py_int str_to_int (PBool b) = Inr (if b then 1 else 0)"
| "py_int str_to_int (PStr s) =
     (case str_to_int s of None \<Rightarrow> Inl ValueError | Some i \<Rightarrow> Inr i)"
| "py_int str_to_int PNone = Inl TypeError"
| "py_int str_to_int (PList xs) = Inl TypeError"
| "py_int str_to_int (PDict kvs) = Inl TypeError"

text \<open>
  The idiom \<open>int(data[key]) if data.get(key) else None\<close> of the hydration functions.
\<close>

definition int_if_truthy :: "(string \<Rightarrow> int option) \<Rightarrow> payload \<Rightarrow> string \<Rightarrow> error + int option" where
  "int_if_truthy str_to_int data key =
     (if truthy (get data key)
      then bind_err (item data key) (\<lambda>v. bind_err (py_int str_to_int v) (\<lambda>i. Inr (Some i)))
      else Inr None)"

text \<open>
  Iterating a payload value in a \<open>for\<close>: a list yields its elements, a dictionary its
  keys, a string its characters; the other values are not iterable.
\<close>

fun py_iter :: "pyvalue \<Rightarrow> error + pyvalue list" where
  "py_iter (PList xs) = Inr xs"
| "py_iter (PDict kvs) = Inr (map (\<lambda>(k, v). PStr k) kvs)"
| "py_iter (PStr s) = Inr (map (\<lambda>c. PStr [c]) s)"
| "py_iter PNone = Inl TypeError"
| "py_iter (PBool b) = Inl TypeError"
| "py_iter (PInt i) = Inl TypeError"

section \<open>Timestamp codec: \<open>fluxer/utils.py\<close>\<close>

subsection \<open>Python's floats\<close>

text \<open>
  Both conversions go through \<open>float\<close>: \<open>timestamp_ms / 1000\<close>,
  \<open>dt.timestamp() * 1000\<close>, and \<open>datetime.fromtimestamp\<close> on a float. A finite float
  is modelled by the rational number it stands for, and each operation by the exact
  result rounded to the nearest binary64 value, ties to the even significand, as
  IEEE 754 prescribes and CPython does. Only the 53-bit significand is modelled, not
  the range of the exponent: every nonzero value that arises below is at least
  \<open>10\<^sup>-\<^sup>6\<close> in magnitude, far from the subnormal range, and a quotient too large for a
  float is the \<open>OverflowError\<close> of \<open>truediv\<close>.
\<close>

text \<open>\<open>int.bit_length\<close>.\<close>

fun bit_length :: "nat \<Rightarrow> nat" where
  "bit_length n = (if n = 0 then 0 else Suc (bit_length (n div 2)))"

declare bit_length.simps [simp del]

text \<open>Rounding to the nearest integer, ties to even: Python's \<open>round\<close>.\<close>

definition round_half_even :: "rat \<Rightarrow> int" where
  "round_half_even x =
     (let n = \<lfloor>x\<rfloor>; r = x - of_int n
      in if r < 1 / 2 then n else if 1 / 2 < r then n + 1 else if even n then n else n + 1)"

text \<open>The binary exponent \<open>e\<close> of a nonzero \<open>x\<close>: \<open>2\<^sup>e \<le> |x| < 2\<^sup>e\<^sup>+\<^sup>1\<close>.\<close>

definition exponent :: "rat \<Rightarrow> int" where
  "exponent x =
     (let (p, q) = quotient_of \<bar>x\<bar>;
          e0 = int (bit_length (nat p)) - int (bit_length (nat q))
      in if 2 powi e0 \<le> \<bar>x\<bar> then e0 else e0 - 1)"

text \<open>The nearest binary64 value: 53 significant bits.\<close>

definition fl :: "rat \<Rightarrow> rat" where
  "fl x =
     (if x = 0 then 0
      else (let e = exponent x - 52
            in of_int (round_half_even (x / 2 powi e)) * 2 powi e))"

text \<open>\<open>int(x)\<close> on a float, and the integral part that \<open>modf\<close> returns: towards zero.\<close>

definition trunc :: "rat \<Rightarrow> int" where
  "trunc x = (if 0 \<le> x then \<lfloor>x\<rfloor> else \<lceil>x\<rceil>)"

text \<open>\<open>a / b\<close> on two \<open>int\<close>s: the correctly rounded quotient.\<close>

definition truediv :: "int \<Rightarrow> int \<Rightarrow> error + rat" where
  "truediv a b =
     (if b = 0 then Inl ZeroDivisionError
      else (let q = fl (of_int a / of_int b)
            in if 2 powi 1024 \<le> \<bar>q\<bar> then Inl OverflowError else Inr q))"

subsection \<open>Instants\<close>

text \<open>
  A timezone-aware \<open>datetime\<close> is the instant it denotes: its number of microseconds
  since 1970-01-01T00:00:00Z, between \<open>datetime.min\<close> and \<open>datetime.max\<close>. Aware
  datetimes compare by instant.
\<close>

type_synonym datetime = int

definition MIN_DATETIME :: datetime where
  "MIN_DATETIME = - 62135596800000000"

definition MAX_DATETIME :: datetime where
  "MAX_DATETIME = 253402300799999999"

text \<open>
  \<open>datetime.fromtimestamp(t, tz=timezone.utc)\<close> on a float: \<open>modf\<close> splits \<open>t\<close>, the
  fraction times \<open>1e6\<close> is rounded half to even to the microseconds, a carry moves into
  the seconds. \<open>fromtimestamp_us\<close> is the instant reached, before the range is checked.
\<close>

definition fromtimestamp_us :: "rat \<Rightarrow> int" where
  "fromtimestamp_us t =
     (let intpart = trunc t;
          frac = t - of_int intpart;
          us = round_half_even (fl (frac * 1000000))
      in intpart * 1000000 + us)"

definition fromtimestamp :: "rat \<Rightarrow> error + datetime" where
  "fromtimestamp t =
     (let total = fromtimestamp_us t
      in if MIN_DATETIME \<le> total \<and> total \<le> MAX_DATETIME then Inr total else Inl OutOfRange)"

text \<open>
  \<open>dt.timestamp()\<close> of an aware datetime: \<open>(dt - epoch).total_seconds()\<close>, the
  microseconds divided by \<open>10\<^sup>6\<close>.
\<close>

definition timestamp :: "datetime \<Rightarrow> rat" where
  "timestamp dt = fl (of_int dt / 1000000)"

subsection \<open>The two conversions\<close>

definition FLUXER_EPOCH :: int where
  "FLUXER_EPOCH = 1420070400000"

definition snowflake_to_datetime :: "(string \<Rightarrow> int option) \<Rightarrow> pyvalue \<Rightarrow> error + datetime" where
  "snowflake_to_datetime str_to_int snowflake =
     bind_err (py_int str_to_int snowflake) (\<lambda>n.
       (let timestamp_ms = drop_bit 22 n + FLUXER_EPOCH
        in bind_err (truediv timestamp_ms 1000) fromtimestamp))"

definition datetime_to_snowflake :: "datetime \<Rightarrow> int" where
  "datetime_to_snowflake dt =
     (let timestamp_ms = trunc (fl (timestamp dt * 1000));
          snowflake = push_bit 22 (timestamp_ms - FLUXER_EPOCH)
      in snowflake)"

section \<open>Entities: \<open>fluxer/models\<close>\<close>

subsection \<open>\<open>PartialEmoji\<close> (\<open>reaction.py\<close>)\<close>

record PartialEmoji =
  PartialEmoji_name :: pyvalue
  PartialEmoji_id :: "int option"
  PartialEmoji_animated :: pyvalue

definition PartialEmoji_from_data :: "(string \<Rightarrow> int option) \<Rightarrow> payload \<Rightarrow> error + PartialEmoji" where
  "PartialEmoji_from_data str_to_int data =
     (let emoji_id = get data ''id''
      in bind_err (if truthy emoji_id
                   then bind_err (py_int str_to_int emoji_id) (\<lambda>i. Inr (Some i))
                   else Inr None)
           (\<lambda>i. Inr \<lparr>PartialEmoji_name = get data ''name'',
                      PartialEmoji_id = i,
                      PartialEmoji_animated = get_default data ''animated'' (PBool False)\<rparr>))"

subsection \<open>The transport and the other collaborators\<close>

text \<open>
  The HTTP client is not part of the modelled files. A handle is the record of its
  operations; each takes the state \<open>'w\<close> of the world outside the program and returns the
  response, or the exception it raises, with the new state. Keyword arguments travel as
  a dictionary.
\<close>

record 'w HTTPClient =
  send_message :: "int \<Rightarrow> payload \<Rightarrow> 'w \<Rightarrow> (error + payload) \<times> 'w"
  get_message :: "int \<Rightarrow> pyvalue \<Rightarrow> 'w \<Rightarrow> (error + payload) \<times> 'w"
  edit_message :: "int \<Rightarrow> int \<Rightarrow> payload \<Rightarrow> 'w \<Rightarrow> (error + payload) \<times> 'w"
  delete_message :: "int \<Rightarrow> int \<Rightarrow> 'w \<Rightarrow> (error + unit) \<times> 'w"
  delete_reaction :: "int \<Rightarrow> int \<Rightarrow> PartialEmoji \<Rightarrow> pyvalue \<Rightarrow> 'w \<Rightarrow> (error + unit) \<times> 'w"
  delete_all_reactions_for_emoji :: "int \<Rightarrow> int \<Rightarrow> PartialEmoji \<Rightarrow> 'w \<Rightarrow> (error + unit) \<times> 'w"
  get_guild_emojis :: "int \<Rightarrow> 'w \<Rightarrow> (error + payload list) \<times> 'w"

text \<open>
  What the modelled code uses of Python and of the files outside it: \<open>int\<close> on strings,
  \<open>User.from_data\<close> and \<open>User.id\<close> (\<open>user.py\<close>), the truth value of an \<open>Embed\<close>
  and \<open>Embed.to_dict\<close> (\<open>embed.py\<close>).
\<close>

record ('w, 'u, 'e) externals =
  str_to_int :: "string \<Rightarrow> int option"
  User_from_data :: "pyvalue \<Rightarrow> 'w HTTPClient option \<Rightarrow> error + 'u"
  User_id :: "'u \<Rightarrow> int"
  Embed_bool :: "'e \<Rightarrow> bool"
  Embed_to_dict :: "'e \<Rightarrow> pyvalue"

subsection \<open>\<open>Channel\<close> (\<open>channel.py\<close>) and \<open>Message\<close> (\<open>message.py\<close>)\<close>

record 'w Channel =
  Channel_id :: int
  Channel_type :: pyvalue
  Channel_name :: pyvalue
  Channel_guild_id :: "int option"
  Channel_position :: pyvalue
  Channel_topic :: pyvalue
  Channel_nsfw :: pyvalue
  Channel_parent_id :: "int option"
  Channel_http :: "'w HTTPClient option"

definition Channel_from_data ::
  "('w, 'u, 'e) externals \<Rightarrow> payload \<Rightarrow> 'w HTTPClient option \<Rightarrow> error + 'w Channel" where
  "Channel_from_data ext data http =
     bind_err (item data ''id'') (\<lambda>v.
     bind_err (py_int (str_to_int ext) v) (\<lambda>i.
     bind_err (item data ''type'') (\<lambda>t.
     bind_err (int_if_truthy (str_to_int ext) data ''guild_id'') (\<lambda>g.
     bind_err (int_if_truthy (str_to_int ext) data ''parent_id'') (\<lambda>p.
       Inr \<lparr>Channel_id = i,
            Channel_type = t,
            Channel_name = get data ''name'',
            Channel_guild_id = g,
            Channel_position = get data ''position'',
            Channel_topic = get data ''topic'',
            Channel_nsfw = get_default data ''nsfw'' (PBool False),
            Channel_parent_id = p,
            Channel_http = http\<rparr>)))))"

record ('w, 'u) Message =
  Message_id :: int
  Message_channel_id :: int
  Message_content :: pyvalue
  Message_author :: 'u
  Message_timestamp :: pyvalue
  Message_edited_timestamp :: pyvalue
  Message_guild_id :: "int option"
  Message_embeds :: pyvalue
  Message_attachments :: pyvalue
  Message_mentions :: "'u list"
  Message_pinned :: pyvalue
  Message_http :: "'w HTTPClient option"
  Message_channel :: "'w Channel option"

definition Message_from_data ::
  "('w, 'u, 'e) externals \<Rightarrow> payload \<Rightarrow> 'w HTTPClient option \<Rightarrow> error + ('w, 'u) Message" where
  "Message_from_data ext data http =
     bind_err (item data ''author'') (\<lambda>a.
     bind_err (User_from_data ext a http) (\<lambda>author.
     bind_err (py_iter (get_default data ''mentions'' (PList []))) (\<lambda>us.
     bind_err (map_err (\<lambda>u. User_from_data ext u http) us) (\<lambda>mentions.
     bind_err (item data ''id'') (\<lambda>v.
     bind_err (py_int (str_to_int ext) v) (\<lambda>i.
     bind_err (item data ''channel_id'') (\<lambda>cv.
     bind_err (py_int (str_to_int ext) cv) (\<lambda>c.
     bind_err (item data ''timestamp'') (\<lambda>ts.
     bind_err (int_if_truthy (str_to_int ext) data ''guild_id'') (\<lambda>g.
       Inr \<lparr>Message_id = i,
            Message_channel_id = c,
            Message_content = get_default data ''content'' (PStr []),
            Message_author = author,
            Message_timestamp = ts,
            Message_edited_timestamp = get data ''edited_timestamp'',
            Message_guild_id = g,
            Message_embeds = get_default data ''embeds'' (PList []),
            Message_attachments = get_default data ''attachments'' (PList []),
            Message_mentions = mentions,
            Message_pinned = get_default data ''pinned'' (PBool False),
            Message_http = http,
            Message_channel = None\<rparr>))))))))))"

text \<open>
  Awaiting a transport call and hydrating the response as a \<open>Message\<close> bound to the same
  handle: the tail shared by \<open>send\<close>, \<open>fetch_message\<close>, \<open>reply\<close> and \<open>edit\<close>.
\<close>

definition hydrate_response ::
  "('w, 'u, 'e) externals \<Rightarrow> 'w HTTPClient \<Rightarrow> (error + payload) \<times> 'w
     \<Rightarrow> (error + ('w, 'u) Message) \<times> 'w" where
  "hydrate_response ext h r =
     (case r of
        (Inl e, w') \<Rightarrow> (Inl e, w')
      | (Inr data, w') \<Rightarrow> (Message_from_data ext data (Some h), w'))"

text \<open>
  \<open>Channel.send\<close>. The test \<open>self._http is None\<close> comes first; then the embeds are
  turned into a list of dictionaries (\<open>None\<close> when there is none) and the message is sent.
\<close>

definition Channel_send ::
  "('w, 'u, 'e) externals \<Rightarrow> 'w Channel \<Rightarrow> pyvalue \<Rightarrow> 'e option \<Rightarrow> 'e list option \<Rightarrow> pyvalue
     \<Rightarrow> pyvalue \<Rightarrow> 'w \<Rightarrow> (error + ('w, 'u) Message) \<times> 'w" where
  "Channel_send ext self content embed' embeds files message_reference w =
     (case Channel_http self of
        None \<Rightarrow> (Inl (RuntimeError ''Channel is not bound to an HTTP client''), w)
      | Some h \<Rightarrow>
          (let embed_list =
                 (if (case embed' of None \<Rightarrow> False | Some e \<Rightarrow> Embed_bool ext e)
                  then PList [Embed_to_dict ext (the embed')]
                  else if (case embeds of None \<Rightarrow> False | Some es \<Rightarrow> es \<noteq> [])
                  then PList (map (Embed_to_dict ext) (the embeds))
                  else PNone)
           in hydrate_response ext h
                (send_message h (Channel_id self)
                   [(''content'', content), (''embeds'', embed_list), (''files'', files),
                    (''message_reference'', message_reference)] w)))"

definition Channel_fetch_message ::
  "('w, 'u, 'e) externals \<Rightarrow> 'w Channel \<Rightarrow> pyvalue \<Rightarrow> 'w \<Rightarrow> (error + ('w, 'u) Message) \<times> 'w" where
  "Channel_fetch_message ext self message_id w =
     (case Channel_http self of
        None \<Rightarrow> (Inl (RuntimeError ''Channel is not bound to an HTTP client''), w)
      | Some h \<Rightarrow> hydrate_response ext h (get_message h (Channel_id self) message_id w))"

definition Message_reply ::
  "('w, 'u, 'e) externals \<Rightarrow> ('w, 'u) Message \<Rightarrow> pyvalue \<Rightarrow> payload \<Rightarrow> 'w
     \<Rightarrow> (error + ('w, 'u) Message) \<times> 'w" where
  "Message_reply ext self content kwargs w =
     (case Message_http self of
        None \<Rightarrow> (Inl (RuntimeError ''Message is not bound to an HTTP client''), w)
      | Some h \<Rightarrow>
          hydrate_response ext h
            (send_message h (Message_channel_id self) ((''content'', content) # kwargs) w))"

definition Message_edit ::
  "('w, 'u, 'e) externals \<Rightarrow> ('w, 'u) Message \<Rightarrow> pyvalue \<Rightarrow> payload \<Rightarrow> 'w
     \<Rightarrow> (error + ('w, 'u) Message) \<times> 'w" where
  "Message_edit ext self content kwargs w =
     (case Message_http self of
        None \<Rightarrow> (Inl (RuntimeError ''Message is not bound to an HTTP client''), w)
      | Some h \<Rightarrow>
          hydrate_response ext h
            (edit_message h (Message_channel_id self) (Message_id self)
               ((''content'', content) # kwargs) w))"

definition Message_delete :: "('w, 'u) Message \<Rightarrow> 'w \<Rightarrow> (error + unit) \<times> 'w" where
  "Message_delete self w =
     (case Message_http self of
        None \<Rightarrow> (Inl (RuntimeError ''Message is not bound to an HTTP client''), w)
      | Some h \<Rightarrow> delete_message h (Message_channel_id self) (Message_id self) w)"

subsection \<open>\<open>Reaction\<close> (\<open>reaction.py\<close>)\<close>

text \<open>
  \<open>remove\<close> and \<open>clear\<close> test \<open>not self._http or not self._message\<close>. A \<open>Message\<close>
  defines neither \<open>__bool__\<close> nor \<open>__len__\<close>, so it is true whenever it is there, and
  the same is taken of an HTTP client: each test is a test for \<open>None\<close>.
\<close>

record ('w, 'u) Reaction =
  Reaction_emoji :: PartialEmoji
  Reaction_count :: pyvalue
  Reaction_me :: pyvalue
  Reaction_message :: "('w, 'u) Message option"
  Reaction_http :: "'w HTTPClient option"

text \<open>The argument \<open>user\<close> is a \<open>User\<close> (left) or a raw identifier (right).\<close>

definition Reaction_remove ::
  "('w, 'u, 'e) externals \<Rightarrow> ('w, 'u) Reaction \<Rightarrow> 'u + pyvalue \<Rightarrow> 'w \<Rightarrow> (error + unit) \<times> 'w" where
  "Reaction_remove ext self user w =
     (case (Reaction_http self, Reaction_message self) of
        (Some h, Some msg) \<Rightarrow>
          (let user_id = (case user of Inl u \<Rightarrow> PInt (User_id ext u) | Inr raw \<Rightarrow> raw)
           in delete_reaction h (Message_channel_id msg) (Message_id msg)
                (Reaction_emoji self) user_id w)
      | _ \<Rightarrow> (Inl (RuntimeError ''Cannot remove reaction without HTTPClient and Message''), w))"

definition Reaction_clear :: "('w, 'u) Reaction \<Rightarrow> 'w \<Rightarrow> (error + unit) \<times> 'w" where
  "Reaction_clear self w =
     (case (Reaction_http self, Reaction_message self) of
        (Some h, Some msg) \<Rightarrow>
          delete_all_reactions_for_emoji h (Message_channel_id msg) (Message_id msg)
            (Reaction_emoji self) w
      | _ \<Rightarrow> (Inl (RuntimeError ''Cannot clear reaction without HTTPClient and Message''), w))"

subsection \<open>\<open>Guild\<close> (\<open>guild.py\<close>) and its emojis\<close>

record 'w Guild =
  Guild_id :: int
  Guild_name :: pyvalue
  Guild_icon :: pyvalue
  Guild_owner_id :: "int option"
  Guild_member_count :: pyvalue
  Guild_unavailable :: pyvalue
  Guild_http :: "'w HTTPClient option"

definition Guild_from_data ::
  "('w, 'u, 'e) externals \<Rightarrow> payload \<Rightarrow> 'w HTTPClient option \<Rightarrow> error + 'w Guild" where
  "Guild_from_data ext data http =
     bind_err (item data ''id'') (\<lambda>v.
     bind_err (py_int (str_to_int ext) v) (\<lambda>i.
     bind_err (int_if_truthy (str_to_int ext) data ''owner_id'') (\<lambda>ow.
       Inr \<lparr>Guild_id = i,
            Guild_name = get data ''name'',
            Guild_icon = get data ''icon'',
            Guild_owner_id = ow,
            Guild_member_count = get data ''member_count'',
            Guild_unavailable = get_default data ''unavailable'' (PBool False),
            Guild_http = http\<rparr>)))"

record 'w Emoji =
  Emoji_id :: int
  Emoji_name :: pyvalue
  Emoji_guild_id :: "int option"
  Emoji_http :: "'w HTTPClient option"

text \<open>
  Modelled from the spec: \<open>Emoji.from_data(data, http, guild_id=...)\<close> lives in
  \<open>fluxer/models/emoji.py\<close>, which is not among the source files. The specification
  says that hydration requires the key \<open>id\<close> and parses it as an identifier, that
  optional keys fall back to their defaults, and that the guild's own id, injected by
  the caller, is the emoji's \<open>guild_id\<close> even when the payload omits that field. With no
  injected id the payload's own \<open>guild_id\<close> is read as the other entities read theirs.
\<close>

definition Emoji_from_data ::
  "('w, 'u, 'e) externals \<Rightarrow> payload \<Rightarrow> 'w HTTPClient option \<Rightarrow> int option \<Rightarrow> error + 'w Emoji" where
  "Emoji_from_data ext data http guild_id =
     bind_err (item data ''id'') (\<lambda>v.
     bind_err (py_int (str_to_int ext) v) (\<lambda>i.
     bind_err (case guild_id of
                 Some g \<Rightarrow> Inr (Some g)
               | None \<Rightarrow> int_if_truthy (str_to_int ext) data ''guild_id'') (\<lambda>g.
       Inr \<lparr>Emoji_id = i,
            Emoji_name = get data ''name'',
            Emoji_guild_id = g,
            Emoji_http = http\<rparr>)))"

text \<open>
  \<open>Guild.fetch_emojis\<close>: the test \<open>not self._http\<close>, the transport call, then one
  hydration per payload with \<open>guild_id=self.id\<close>.
\<close>

definition Guild_fetch_emojis ::
  "('w, 'u, 'e) externals \<Rightarrow> 'w Guild \<Rightarrow> 'w \<Rightarrow> (error + 'w Emoji list) \<times> 'w" where
  "Guild_fetch_emojis ext self w =
     (case Guild_http self of
        None \<Rightarrow> (Inl (RuntimeError ''Cannot fetch emojis without HTTPClient''), w)
      | Some h \<Rightarrow>
          (case get_guild_emojis h (Guild_id self) w of
             (Inl e, w') \<Rightarrow> (Inl e, w')
           | (Inr data, w') \<Rightarrow>
               (map_err (\<lambda>emoji_data. Emoji_from_data ext emoji_data (Some h) (Some (Guild_id self)))
                  data, w')))"

section \<open>Statements about hydration, and examples\<close>

text \<open>Whether an evaluation ended without an exception.\<close>

definition is_ok :: "error + 'a \<Rightarrow> bool" where
  "is_ok r = (case r of Inl e \<Rightarrow> False | Inr x \<Rightarrow> True)"

text \<open>
  The specification names the failures of hydration \<open>MalformedPayload\<close>: a required
  key is missing, or a value does not parse. The code has no exception class of its own
  for them: a missing key is the \<open>KeyError\<close> of \<open>data[key]\<close>, a value that does not
  parse is the \<open>ValueError\<close> or \<open>TypeError\<close> of \<open>int\<close> or of the iteration.
\<close>

fun MalformedPayload :: "error \<Rightarrow> bool" where
  "MalformedPayload (KeyError key) = True"
| "MalformedPayload ValueError = True"
| "MalformedPayload TypeError = True"
| "MalformedPayload (RuntimeError msg) = False"
| "MalformedPayload ZeroDivisionError = False"
| "MalformedPayload OverflowError = False"
| "MalformedPayload OutOfRange = False"
| "MalformedPayload (Transport msg) = False"

text \<open>
  The parts of \<open>Message.from_data\<close> that can raise, each on its own: the author (the
  key is there and \<open>User.from_data\<close> accepts its value), the mentions (the value of
  \<open>mentions\<close>, or the empty list when the key is absent, can be iterated and
  \<open>User.from_data\<close> accepts every element), \<open>id\<close> and \<open>channel_id\<close> (the key is there
  and \<open>int\<close> accepts its value), the timestamp (the key is there) and the optional
  guild identifier (absent, false, or accepted by \<open>int\<close>).
\<close>

definition message_parts_hydrate ::
  "('w, 'u, 'e) externals \<Rightarrow> payload \<Rightarrow> 'w HTTPClient option \<Rightarrow> bool" where
  "message_parts_hydrate ext data http \<longleftrightarrow>
     is_ok (bind_err (item data ''author'') (\<lambda>a. User_from_data ext a http))
     \<and> is_ok (bind_err (py_iter (get_default data ''mentions'' (PList [])))
                (map_err (\<lambda>u. User_from_data ext u http)))
     \<and> is_ok (bind_err (item data ''id'') (py_int (str_to_int ext)))
     \<and> is_ok (bind_err (item data ''channel_id'') (py_int (str_to_int ext)))
     \<and> is_ok (item data ''timestamp'')
     \<and> is_ok (int_if_truthy (str_to_int ext) data ''guild_id'')"

subsection \<open>Stand-ins for the collaborators\<close>

text \<open>
  For the examples, \<open>int\<close> on strings is taken on plain decimal literals (ASCII digits
  after an optional minus sign), where it is what Python computes, and a \<open>User\<close> is
  represented by its payload.
\<close>

definition digit_val :: "char \<Rightarrow> nat option" where
  "digit_val c = (let n = (of_char c :: nat) in if 48 \<le> n \<and> n \<le> 57 then Some (n - 48) else None)"

fun digits_to_nat :: "nat \<Rightarrow> string \<Rightarrow> nat option" where
  "digits_to_nat acc [] = Some acc"
| "digits_to_nat acc (c # cs) =
     (case digit_val c of None \<Rightarrow> None | Some d \<Rightarrow> digits_to_nat (10 * acc + d) cs)"

definition decimal_literal :: "string \<Rightarrow> int option" where
  "decimal_literal s =
     (case s of
        [] \<Rightarrow> None
      | c # cs \<Rightarrow>
          if c = CHR ''-''
          then (if cs = [] then None else map_option (\<lambda>n. - int n) (digits_to_nat 0 cs))
          else map_option int (digits_to_nat 0 s))"

definition example_ext :: "(nat, pyvalue, pyvalue) externals" where
  "example_ext =
     \<lparr>str_to_int = decimal_literal,
      User_from_data = (\<lambda>v h. Inr v),
      User_id = (\<lambda>u. 0),
      Embed_bool = (\<lambda>e. True),
      Embed_to_dict = (\<lambda>e. e)\<rparr>"

text \<open>
  A transport whose message operations fail and whose emoji list holds two payloads
  without \<open>guild_id\<close>. The state of the world counts the calls made.
\<close>

definition example_http :: "nat HTTPClient" where
  "example_http =
     \<lparr>send_message = (\<lambda>c kwargs w. (Inl (Transport ''unreachable''), Suc w)),
      get_message = (\<lambda>c m w. (Inl (Transport ''unreachable''), Suc w)),
      edit_message = (\<lambda>c m kwargs w. (Inl (Transport ''unreachable''), Suc w)),
      delete_message = (\<lambda>c m w. (Inl (Transport ''unreachable''), Suc w)),
      delete_reaction = (\<lambda>c m e u w. (Inl (Transport ''unreachable''), Suc w)),
      delete_all_reactions_for_emoji = (\<lambda>c m e w. (Inl (Transport ''unreachable''), Suc w)),
      get_guild_emojis =
        (\<lambda>g w. (Inr [[(''id'', PStr ''1''), (''name'', PStr ''party'')],
                      [(''id'', PInt 2), (''name'', PStr ''wave'')]], Suc w))\<rparr>"

subsection \<open>Example entities and payloads\<close>

definition unbound_channel :: "nat Channel" where
  "unbound_channel =
     \<lparr>Channel_id = 5, Channel_type = PInt 0, Channel_name = PStr ''general'',
      Channel_guild_id = None, Channel_position = PNone, Channel_topic = PNone,
      Channel_nsfw = PBool False, Channel_parent_id = None, Channel_http = None\<rparr>"

definition unbound_message :: "(nat, pyvalue) Message" where
  "unbound_message =
     \<lparr>Message_id = 7, Message_channel_id = 5, Message_content = PStr ''hello'',
      Message_author = PDict [(''id'', PStr ''3'')], Message_timestamp = PStr ''2024-01-01T00:00:00Z'',
      Message_edited_timestamp = PNone, Message_guild_id = None, Message_embeds = PList [],
      Message_attachments = PList [], Message_mentions = [], Message_pinned = PBool False,
      Message_http = None, Message_channel = None\<rparr>"

text \<open>A reaction that has a transport handle but no message.\<close>

definition detached_reaction :: "(nat, pyvalue) Reaction" where
  "detached_reaction =
     \<lparr>Reaction_emoji = \<lparr>PartialEmoji_name = PStr ''wave'', PartialEmoji_id = None,
                         PartialEmoji_animated = PBool False\<rparr>,
      Reaction_count = PInt 1, Reaction_me = PBool False,
      Reaction_message = None, Reaction_http = Some example_http\<rparr>"

definition example_guild :: "nat Guild" where
  "example_guild =
     \<lparr>Guild_id = 99, Guild_name = PStr ''home'', Guild_icon = PNone, Guild_owner_id = None,
      Guild_member_count = PNone, Guild_unavailable = PBool False,
      Guild_http = Some example_http\<rparr>"

text \<open>
  Message payloads: one whose \<open>id\<close> is not a number, one with exactly the required
  keys, one whose \<open>mentions\<close> is \<open>null\<close>, one without \<open>author\<close>.
\<close>

definition bad_id_message :: payload where
  "bad_id_message =
     [(''id'', PStr ''abc''), (''channel_id'', PStr ''42''),
      (''author'', PDict [(''id'', PStr ''7'')]), (''timestamp'', PStr ''2024-01-01T00:00:00Z'')]"

definition minimal_message :: payload where
  "minimal_message =
     [(''id'', PStr ''7''), (''channel_id'', PStr ''5''), (''author'', PDict [(''id'', PStr ''3'')]),
      (''timestamp'', PStr ''2024-01-01T00:00:00Z'')]"

definition null_mentions_message :: payload where
  "null_mentions_message =
     [(''id'', PStr ''7''), (''channel_id'', PStr ''5''), (''author'', PDict [(''id'', PStr ''3'')]),
      (''timestamp'', PStr ''2024-01-01T00:00:00Z''), (''mentions'', PNone)]"

definition authorless_message :: payload where
  "authorless_message =
     [(''id'', PStr ''7''), (''channel_id'', PStr ''5''),
      (''timestamp'', PStr ''2024-01-01T00:00:00Z''), (''pinned'', PBool True)]"

text \<open>Payloads whose optional identifiers are \<open>0\<close> or the empty string.\<close>

definition zero_ids_channel :: payload where
  "zero_ids_channel =
     [(''id'', PStr ''5''), (''type'', PInt 0), (''guild_id'', PInt 0), (''parent_id'', PStr [])]"

definition zero_ids_guild :: payload where
  "zero_ids_guild = [(''id'', PInt 9), (''owner_id'', PInt 0)]"

definition zero_ids_message :: payload where
  "zero_ids_message =
     [(''id'', PStr ''7''), (''channel_id'', PStr ''5''), (''author'', PDict [(''id'', PStr ''3'')]),
      (''timestamp'', PStr ''2024-01-01T00:00:00Z''), (''guild_id'', PStr [])]"

definition zero_id_emoji :: payload where
  "zero_id_emoji = [(''name'', PStr ''wave''), (''id'', PInt 0)]"

section \<open>Properties of the handler registry\<close>

subsection \<open>What the discovery loop computes\<close>

lemma scan_names_Nil: "scan_names ms [] = []"
  by (simp add: scan_names_def map_filter_simps)

lemma scan_names_Cons:
  "scan_names ms (n # ns) =
     (if startswith_underscore n then scan_names ms ns
      else case getattr ms n of None \<Rightarrow> scan_names ms ns
           | Some m \<Rightarrow> (n, m) # scan_names ms ns)"
  by (simp add: scan_names_def map_filter_simps split: option.splits)

lemma members_discover_one: "members (discover_one cog n) = members cog"
  by (simp add: discover_one_def Let_def split: option.splits)

lemma commands_discover_one:
  "commands (discover_one cog n) c =
     (if startswith_underscore n then commands cog c
      else case getattr (members cog) n of None \<Rightarrow> commands cog c
           | Some m \<Rightarrow> if cog_command m \<and> cmd_name n m = c then Some m else commands cog c)"
  by (simp add: discover_one_def Let_def split: option.splits)

lemma listeners_discover_one:
  "listeners (discover_one cog n) e =
     (if startswith_underscore n then listeners cog e
      else case getattr (members cog) n of None \<Rightarrow> listeners cog e
           | Some m \<Rightarrow> if cog_listener m \<and> event_name n m = e
                        then Some ((case listeners cog e of None \<Rightarrow> [] | Some hs \<Rightarrow> hs) @ [m])
                        else listeners cog e)"
  by (simp add: discover_one_def Let_def split: option.splits)

lemma command_hits_Nil: "command_hits [] c = []"
  by (simp add: command_hits_def)

lemma command_hits_Cons:
  "command_hits ((n, m) # sc) c =
     (if cog_command m \<and> cmd_name n m = c then m # command_hits sc c else command_hits sc c)"
  by (simp add: command_hits_def)

lemma listener_hits_Nil: "listener_hits [] e = []"
  by (simp add: listener_hits_def)

lemma listener_hits_Cons:
  "listener_hits ((n, m) # sc) e =
     (if cog_listener m \<and> event_name n m = e then m # listener_hits sc e else listener_hits sc e)"
  by (simp add: listener_hits_def)

text \<open>
  The loop invariant, for any starting dictionaries: a command key holds the last hit of
  the scan (or its old value), a listener key holds its old list followed by every hit.
\<close>

lemma commands_discover_loop:
  "commands (discover_loop cog ns) c =
     (if command_hits (scan_names (members cog) ns) c = [] then commands cog c
      else Some (last (command_hits (scan_names (members cog) ns) c)))"
proof (induction ns arbitrary: cog)
  case Nil
  show ?case by (simp add: scan_names_Nil command_hits_Nil)
next
  case (Cons n ns)
  show ?case
    by (simp add: Cons.IH members_discover_one commands_discover_one scan_names_Cons
        command_hits_Cons split: option.splits)
qed

lemma listeners_discover_loop:
  "listeners (discover_loop cog ns) e =
     (if listener_hits (scan_names (members cog) ns) e = [] then listeners cog e
      else Some ((case listeners cog e of None \<Rightarrow> [] | Some old \<Rightarrow> old)
                 @ listener_hits (scan_names (members cog) ns) e))"
proof (induction ns arbitrary: cog)
  case Nil
  show ?case by (simp add: scan_names_Nil listener_hits_Nil)
next
  case (Cons n ns)
  show ?case
    by (simp add: Cons.IH members_discover_one listeners_discover_one scan_names_Cons
        listener_hits_Cons split: option.splits)
qed

lemma commands_Cog_init:
  "commands (Cog_init b ms) c =
     (if command_hits (scanned ms) c = [] then None else Some (last (command_hits (scanned ms) c)))"
  by (simp add: Cog_init_def discover_handlers_def commands_discover_loop scanned_def)

lemma listeners_Cog_init:
  "listeners (Cog_init b ms) e =
     (if listener_hits (scanned ms) e = [] then None else Some (listener_hits (scanned ms) e))"
  by (simp add: Cog_init_def discover_handlers_def listeners_discover_loop scanned_def)

lemma listener_hits_scan_names:
  "listener_hits (scan_names ms ns) e = map (\<lambda>n. the (getattr ms n)) (filter (is_listener_for ms e) ns)"
  by (induction ns)
     (auto simp: scan_names_Nil scan_names_Cons listener_hits_Nil listener_hits_Cons
        is_listener_for_def split: option.splits)

lemma command_hits_scan_names:
  "command_hits (scan_names ms ns) c = map (\<lambda>n. the (getattr ms n)) (filter (is_command_for ms c) ns)"
  by (induction ns)
     (auto simp: scan_names_Nil scan_names_Cons command_hits_Nil command_hits_Cons
        is_command_for_def split: option.splits)

lemma sorted_dir_names: "sorted (dir_names ms)"
  by (simp add: dir_names_def)

lemma distinct_dir_names: "distinct (dir_names ms)"
  by (simp add: dir_names_def)

lemma set_dir_names: "set (dir_names ms) = fst ` set ms"
  by (simp add: dir_names_def)

lemma getattr_in_dir: "getattr ms n = Some m \<Longrightarrow> n \<in> set (dir_names ms)"
  by (auto simp: getattr_def set_dir_names dest!: map_of_SomeD intro: rev_image_eqI)

lemma last_filter_sorted:
  "sorted ns \<Longrightarrow> distinct ns \<Longrightarrow> n \<in> set ns \<Longrightarrow> P n \<Longrightarrow>
   (\<forall>n' \<in> set ns. n < n' \<longrightarrow> \<not> P n') \<Longrightarrow> last (filter P ns) = n"
proof (induction ns)
  case Nil
  then show ?case by simp
next
  case (Cons a ns)
  show ?case
  proof (cases "a = n")
    case True
    have "\<forall>x \<in> set ns. \<not> P x"
      using Cons.prems True by (auto simp: less_le)
    then have "filter P ns = []" by (simp add: filter_empty_conv)
    with True Cons.prems show ?thesis by simp
  next
    case False
    with Cons.prems have n: "n \<in> set ns" by simp
    then have ne: "filter P ns \<noteq> []"
      using Cons.prems(4) by (auto simp: filter_empty_conv)
    have "last (filter P ns) = n"
      using Cons.IH Cons.prems n by simp
    with ne show ?thesis by simp
  qed
qed

lemma registered_command_is_scanned:
  assumes "commands (Cog_init b ms) c = Some m"
  shows "\<exists>n. is_command_for ms c n \<and> getattr ms n = Some m"
proof -
  let ?xs = "filter (is_command_for ms c) (dir_names ms)"
  from assms have ne: "?xs \<noteq> []" and m: "the (getattr ms (last ?xs)) = m"
    by (auto simp: commands_Cog_init scanned_def command_hits_scan_names last_map split: if_splits)
  from ne have "last ?xs \<in> set ?xs" by (rule last_in_set)
  then have "is_command_for ms c (last ?xs)" by simp
  with m show ?thesis
    by (auto simp: is_command_for_def split: option.splits)
qed

lemma registered_listener_is_scanned:
  assumes "listeners (Cog_init b ms) e = Some hs" and "m \<in> set hs"
  shows "\<exists>n. is_listener_for ms e n \<and> getattr ms n = Some m"
proof -
  from assms obtain n where "is_listener_for ms e n" "the (getattr ms n) = m"
    by (auto simp: listeners_Cog_init scanned_def listener_hits_scan_names split: if_splits)
  then show ?thesis
    by (auto simp: is_listener_for_def split: option.splits)
qed

subsection \<open>Order of the listeners of one event\<close>

text \<open>
  C1, as stated, fails. \<open>TwoListeners\<close> declares \<open>zeta\<close> before \<open>alpha\<close>, both
  listeners for \<open>on_message\<close>. Both are registered, but \<open>dir\<close> yields the names sorted,
  so the registered list is \<open>[alpha, zeta]\<close>, the reverse of the declaration order.
\<close>

theorem listener_order_counterexample:
  "listeners (Cog_init () two_listeners_cog) ''on_message''
     = Some [listener (Some ''on_message'') (plain 2), listener (Some ''on_message'') (plain 1)]
   \<and> declared_listeners two_listeners_cog ''on_message''
     = [listener (Some ''on_message'') (plain 1), listener (Some ''on_message'') (plain 2)]
   \<and> listeners (Cog_init () two_listeners_cog) ''on_message''
     \<noteq> Some (declared_listeners two_listeners_cog ''on_message'')"
  by code_simp

text \<open>
  C1, amended: construction registers, under an event name, every scanned member tagged
  as a listener for it, each once, and the registered list is in ascending order of the
  member names (the order of \<open>dir\<close>), whatever the order of declaration. An event with
  no listener has no entry.
\<close>

theorem listeners_in_name_order:
  "\<exists>names. sorted names \<and> distinct names
     \<and> set names = {n. \<not> startswith_underscore n \<and>
                        (\<exists>m. getattr ms n = Some m \<and> cog_listener m \<and> event_name n m = e)}
     \<and> listeners (Cog_init b ms) e =
           (if names = [] then None else Some (map (\<lambda>n. the (getattr ms n)) names))"
proof -
  let ?names = "filter (is_listener_for ms e) (dir_names ms)"
  have 1: "sorted ?names" by (simp add: sorted_dir_names sorted_wrt_filter)
  have 2: "distinct ?names" by (simp add: distinct_dir_names)
  have 3: "set ?names = {n. \<not> startswith_underscore n \<and>
                        (\<exists>m. getattr ms n = Some m \<and> cog_listener m \<and> event_name n m = e)}"
    by (auto simp: is_listener_for_def getattr_in_dir split: option.splits)
  have 4: "listeners (Cog_init b ms) e =
           (if ?names = [] then None else Some (map (\<lambda>n. the (getattr ms n)) ?names))"
    by (simp add: listeners_Cog_init scanned_def listener_hits_scan_names)
  from 1 2 3 4 show ?thesis by blast
qed

subsection \<open>Commands overwrite, listeners append\<close>

text \<open>
  C4: for every cog construction, the command index holds under a name only the last
  discovered command that resolves to it, and the listener index holds under an event
  name all the discovered listeners that resolve to it, in discovery order.
\<close>

theorem commands_overwrite_listeners_append:
  "commands (Cog_init b ms) c =
     (if command_hits (scanned ms) c = [] then None
      else Some (last (command_hits (scanned ms) c)))
   \<and> listeners (Cog_init b ms) e =
     (if listener_hits (scanned ms) e = [] then None
      else Some (listener_hits (scanned ms) e))"
proof
  show "commands (Cog_init b ms) c =
     (if command_hits (scanned ms) c = [] then None
      else Some (last (command_hits (scanned ms) c)))"
    by (rule commands_Cog_init)
  show "listeners (Cog_init b ms) e =
     (if listener_hits (scanned ms) e = [] then None
      else Some (listener_hits (scanned ms) e))"
    by (rule listeners_Cog_init)
qed

theorem commands_overwrite_listeners_append_witness:
  "commands (Cog_init () duplicates_cog) ''hi'' = Some (command (Some ''hi'') (plain 2))
   \<and> listeners (Cog_init () duplicates_cog) ''on_message''
       = Some [listener (Some ''on_message'') (plain 3), listener None (plain 4)]"
proof -
  have c: "command_hits (scanned duplicates_cog) ''hi''
             = [command (Some ''hi'') (plain 1), command (Some ''hi'') (plain 2)]"
    by code_simp
  have l: "listener_hits (scanned duplicates_cog) ''on_message''
             = [listener (Some ''on_message'') (plain 3), listener None (plain 4)]"
    by code_simp
  show ?thesis
    using commands_overwrite_listeners_append [of "()" duplicates_cog "''hi''" "''on_message''"]
    by (simp add: c l)
qed

subsection \<open>The name a command is indexed under\<close>

text \<open>
  C7, as stated, fails. In \<open>Duplicates\<close> the method \<open>first\<close> is tagged as a command
  with the explicit name \<open>hi\<close>, and so is \<open>second\<close>, which is scanned later: the index
  maps \<open>hi\<close> to \<open>second\<close>, not to \<open>first\<close>.
\<close>

theorem explicit_name_counterexample:
  "getattr duplicates_cog ''first'' = Some (command (Some ''hi'') (plain 1))
   \<and> cog_command (command (Some ''hi'') (plain (1::nat)))
   \<and> cog_command_name (command (Some ''hi'') (plain (1::nat))) = Some ''hi''
   \<and> commands (Cog_init () duplicates_cog) ''hi'' \<noteq> Some (command (Some ''hi'') (plain 1))"
  by code_simp

text \<open>
  C7, amended: take a scanned (non-underscore) member tagged as a command, such that no
  member scanned later (one with a greater name) is a command resolving to the same
  name. With an explicit name \<open>c\<close>, the index maps \<open>c\<close> to the method and does not map
  the member's own name to it unless that name is \<open>c\<close>; with no explicit name, the index
  maps the member's own name to the method.
\<close>

theorem command_indexed_under_resolved_name:
  assumes pub: "\<not> startswith_underscore n"
      and get: "getattr ms n = Some m"
      and cmd: "cog_command m"
      and last: "\<forall>n' m'. n < n' \<and> \<not> startswith_underscore n' \<and> getattr ms n' = Some m'
                   \<and> cog_command m' \<longrightarrow> cmd_name n' m' \<noteq> cmd_name n m"
  shows "(cog_command_name m = Some c \<longrightarrow>
            commands (Cog_init b ms) c = Some m
            \<and> (n \<noteq> c \<longrightarrow> commands (Cog_init b ms) n \<noteq> Some m))
       \<and> (cog_command_name m = None \<longrightarrow> commands (Cog_init b ms) n = Some m)"
proof -
  let ?k = "cmd_name n m"
  let ?P = "is_command_for ms ?k"
  have Pn: "?P n" using pub get cmd by (simp add: is_command_for_def)
  have later: "\<forall>n' \<in> set (dir_names ms). n < n' \<longrightarrow> \<not> ?P n'"
    using last by (auto simp: is_command_for_def split: option.splits)
  have lastn: "last (filter ?P (dir_names ms)) = n"
    by (rule last_filter_sorted
          [OF sorted_dir_names distinct_dir_names getattr_in_dir [OF get] Pn later])
  have ne: "filter ?P (dir_names ms) \<noteq> []"
    using getattr_in_dir [OF get] Pn by (auto simp: filter_empty_conv)
  have reg: "commands (Cog_init b ms) ?k = Some m"
    using lastn ne get
    by (simp add: commands_Cog_init scanned_def command_hits_scan_names last_map)
  have only: "k = c" if a: "commands (Cog_init b ms) k = Some m"
    and b: "cog_command_name m = Some c" for k
  proof -
    from registered_command_is_scanned [OF a]
    obtain n' where "is_command_for ms k n'" "getattr ms n' = Some m" by blast
    with b show "k = c"
      by (auto simp: is_command_for_def cmd_name_def split: option.splits)
  qed
  show ?thesis using reg only by (auto simp: cmd_name_def)
qed

theorem command_indexed_under_resolved_name_witness:
  "commands (Cog_init () greeter_cog) ''hi'' = Some (command (Some ''hi'') (plain 1))
   \<and> commands (Cog_init () greeter_cog) ''hello'' \<noteq> Some (command (Some ''hi'') (plain 1))
   \<and> commands (Cog_init () greeter_cog) ''ping'' = Some (command None (plain 2))"
proof -
  have g: "getattr greeter_cog n' = Some m' \<Longrightarrow>
             (n', m') \<in> {(''hello'', command (Some ''hi'') (plain 1)),
                         (''ping'', command None (plain 2)),
                         (''_hidden'', command None (listener None (plain 3)))}" for n' m'
    by (auto simp: getattr_def greeter_cog_def split: if_splits)
  have h1: "\<not> startswith_underscore ''hello''" and p1: "\<not> startswith_underscore ''ping''"
    by (simp_all add: startswith_underscore_def)
  have h2: "getattr greeter_cog ''hello'' = Some (command (Some ''hi'') (plain 1))"
    and p2: "getattr greeter_cog ''ping'' = Some (command None (plain 2))"
    by (simp_all add: getattr_def greeter_cog_def)
  have h3: "cog_command (command (Some ''hi'') (plain (1::nat)))"
    and p3: "cog_command (command None (plain (2::nat)))"
    by (simp_all add: command_def plain_def)
  have h4: "\<forall>n' m'. ''hello'' < n' \<and> \<not> startswith_underscore n'
              \<and> getattr greeter_cog n' = Some m' \<and> cog_command m'
              \<longrightarrow> cmd_name n' m' \<noteq> cmd_name ''hello'' (command (Some ''hi'') (plain (1::nat)))"
    by (auto dest!: g simp: cmd_name_def command_def listener_def plain_def
          startswith_underscore_def)
  have p4: "\<forall>n' m'. ''ping'' < n' \<and> \<not> startswith_underscore n'
              \<and> getattr greeter_cog n' = Some m' \<and> cog_command m'
              \<longrightarrow> cmd_name n' m' \<noteq> cmd_name ''ping'' (command None (plain (2::nat)))"
    by (auto dest!: g simp: cmd_name_def command_def listener_def plain_def
          startswith_underscore_def)
  have n1: "cog_command_name (command (Some ''hi'') (plain (1::nat))) = Some ''hi''"
    and n2: "cog_command_name (command None (plain (2::nat))) = None"
    by (simp_all add: command_def plain_def)
  show ?thesis
    using command_indexed_under_resolved_name [OF h1 h2 h3 h4, of "''hi''" "()"]
      command_indexed_under_resolved_name [OF p1 p2 p3 p4, of "''hi''" "()"] n1 n2
    by blast
qed

subsection \<open>Members with a leading underscore\<close>

text \<open>
  C10: discovery never scans a name that starts with an underscore. A tagged method
  that is bound only under such names is in neither index; it can be registered only
  through a binding under a name without the underscore.
\<close>

theorem underscore_members_not_registered:
  assumes "\<forall>n. getattr ms n = Some m \<longrightarrow> startswith_underscore n"
  shows "commands (Cog_init b ms) c \<noteq> Some m
       \<and> (\<forall>hs. listeners (Cog_init b ms) e = Some hs \<longrightarrow> m \<notin> set hs)"
proof -
  have c: "commands (Cog_init b ms) c \<noteq> Some m"
  proof
    assume "commands (Cog_init b ms) c = Some m"
    from registered_command_is_scanned [OF this] assms show False
      by (auto simp: is_command_for_def)
  qed
  have l: "m \<notin> set hs" if a: "listeners (Cog_init b ms) e = Some hs" for hs
  proof
    assume "m \<in> set hs"
    from registered_listener_is_scanned [OF a this] assms show False
      by (auto simp: is_listener_for_def)
  qed
  from c l show ?thesis by blast
qed

theorem underscore_members_not_registered_witness:
  "getattr greeter_cog ''_hidden'' = Some (command None (listener None (plain 3)))
   \<and> cog_command (command None (listener None (plain (3::nat))))
   \<and> cog_listener (command None (listener None (plain (3::nat))))
   \<and> commands (Cog_init () greeter_cog) ''_hidden'' \<noteq> Some (command None (listener None (plain 3)))
   \<and> listeners (Cog_init () greeter_cog) ''_hidden'' \<noteq> Some [command None (listener None (plain 3))]"
proof -
  have h: "\<forall>n. getattr greeter_cog n = Some (command None (listener None (plain 3)))
             \<longrightarrow> startswith_underscore n"
    by (auto simp: getattr_def greeter_cog_def startswith_underscore_def command_def
          listener_def plain_def split: if_splits)
  have g: "getattr greeter_cog ''_hidden'' = Some (command None (listener None (plain 3)))"
    by (simp add: getattr_def greeter_cog_def)
  have t: "cog_command (command None (listener None (plain (3::nat))))
         \<and> cog_listener (command None (listener None (plain (3::nat))))"
    by (simp add: command_def listener_def plain_def)
  show ?thesis
    using underscore_members_not_registered [OF h, of "()" "''_hidden''" "''_hidden''"] g t
    by auto
qed

section \<open>Properties of the timestamp codec\<close>

subsection \<open>Rounding to the nearest float is monotone\<close>

lemma bit_length_bounds:
  "0 < n \<Longrightarrow> 2 ^ (bit_length n - 1) \<le> n \<and> n < 2 ^ bit_length n"
proof (induction n rule: bit_length.induct)
  case (1 n)
  show ?case
  proof (cases "n div 2 = 0")
    case True
    with "1.prems" have "n = 1" by (auto simp: div_eq_0_iff)
    then show ?thesis by (simp add: bit_length.simps)
  next
    case False
    then have pos: "0 < n div 2" by simp
    from "1.IH" [OF _ pos] "1.prems"
    have ih: "2 ^ (bit_length (n div 2) - 1) \<le> n div 2" "n div 2 < 2 ^ bit_length (n div 2)"
      by auto
    have bl: "bit_length n = Suc (bit_length (n div 2))"
      using "1.prems" by (subst bit_length.simps) simp
    have bpos: "0 < bit_length (n div 2)"
      using pos by (subst bit_length.simps) simp
    then obtain k where k: "bit_length (n div 2) = Suc k" by (cases "bit_length (n div 2)") auto
    from ih k have "2 * 2 ^ k \<le> n" "n < 2 * 2 ^ Suc k" by auto
    then show ?thesis by (simp add: bl k)
  qed
qed

lemma exponent_bounds:
  assumes "x \<noteq> 0"
  shows "2 powi exponent x \<le> \<bar>x\<bar> \<and> \<bar>x\<bar> < 2 powi (exponent x + 1)"
proof -
  obtain p q where pq: "quotient_of \<bar>x\<bar> = (p, q)" by (cases "quotient_of \<bar>x\<bar>")
  then have q: "0 < q" and x: "\<bar>x\<bar> = of_int p / of_int q"
    by (auto simp: quotient_of_denom_pos quotient_of_div)
  from assms have "0 < \<bar>x\<bar>" by simp
  with x q have p: "0 < p" by (simp add: zero_less_divide_iff)
  define bp where "bp = bit_length (nat p)"
  define bq where "bq = bit_length (nat q)"
  from bit_length_bounds [of "nat p"] p
  have p1: "2 ^ (bp - 1) \<le> nat p" and p2: "nat p < 2 ^ bp" by (auto simp: bp_def)
  from bit_length_bounds [of "nat q"] q
  have q1: "2 ^ (bq - 1) \<le> nat q" and q2: "nat q < 2 ^ bq" by (auto simp: bq_def)
  have bp0: "0 < bp" using p2 p by (cases bp) auto
  have bq0: "0 < bq" using q2 q by (cases bq) auto
  define P Q :: rat where "P = of_int p" and "Q = of_int q"
  have Ppos: "0 < P" and Qpos: "0 < Q" using p q by (simp_all add: P_def Q_def)
  have P1: "2 powi (int bp - 1) \<le> P"
  proof -
    have "(2::rat) ^ (bp - 1) \<le> of_nat (nat p)"
      using p1 by (metis of_nat_le_iff of_nat_numeral of_nat_power)
    moreover have "int (bp - 1) = int bp - 1" using bp0 by simp
    ultimately show ?thesis using p
      by (metis P_def int_nat_eq less_imp_le of_int_of_nat_eq power_int_of_nat)
  qed
  have P2: "P < 2 powi (int bp)"
  proof -
    have "(of_nat (nat p) :: rat) < 2 ^ bp"
      using p2 by (metis of_nat_less_iff of_nat_numeral of_nat_power)
    then show ?thesis using p
      by (metis P_def int_nat_eq less_imp_le of_int_of_nat_eq power_int_of_nat)
  qed
  have Q1: "2 powi (int bq - 1) \<le> Q"
  proof -
    have "(2::rat) ^ (bq - 1) \<le> of_nat (nat q)"
      using q1 by (metis of_nat_le_iff of_nat_numeral of_nat_power)
    moreover have "int (bq - 1) = int bq - 1" using bq0 by simp
    ultimately show ?thesis using q
      by (metis Q_def int_nat_eq less_imp_le of_int_of_nat_eq power_int_of_nat)
  qed
  have Q2: "Q < 2 powi (int bq)"
  proof -
    have "(of_nat (nat q) :: rat) < 2 ^ bq"
      using q2 by (metis of_nat_less_iff of_nat_numeral of_nat_power)
    then show ?thesis using q
      by (metis Q_def int_nat_eq less_imp_le of_int_of_nat_eq power_int_of_nat)
  qed
  define e0 where "e0 = int bp - int bq"
  have pw: "0 < (2::rat) powi k" for k by (simp add: zero_less_power_int)
  have add: "(2::rat) powi a * 2 powi b = 2 powi (a + b)" for a b
    by (simp add: power_int_add)
  have A: "2 powi (e0 - 1) < \<bar>x\<bar>"
  proof -
    have "2 powi (e0 - 1) * Q < 2 powi (e0 - 1) * 2 powi (int bq)"
      using Q2 pw by (simp add: mult_strict_left_mono)
    also have "\<dots> = 2 powi (int bp - 1)"
      by (subst add) (simp add: e0_def)
    also have "\<dots> \<le> P" by (rule P1)
    finally have "2 powi (e0 - 1) < P / Q" using Qpos by (simp add: pos_less_divide_eq)
    then show ?thesis by (simp add: x P_def Q_def)
  qed
  have B: "\<bar>x\<bar> < 2 powi (e0 + 1)"
  proof -
    have "P < 2 powi (int bp)" by (rule P2)
    also have "\<dots> = 2 powi (e0 + 1) * 2 powi (int bq - 1)"
      by (subst add) (simp add: e0_def)
    also have "\<dots> \<le> 2 powi (e0 + 1) * Q"
      using Q1 pw by (simp add: mult_left_mono less_imp_le)
    finally have "P / Q < 2 powi (e0 + 1)" using Qpos by (simp add: pos_divide_less_eq)
    then show ?thesis by (simp add: x P_def Q_def)
  qed
  have ex: "exponent x = (if 2 powi e0 \<le> \<bar>x\<bar> then e0 else e0 - 1)"
    by (simp add: exponent_def pq e0_def bp_def bq_def)
  show ?thesis
  proof (cases "2 powi e0 \<le> \<bar>x\<bar>")
    case True
    with B ex show ?thesis by simp
  next
    case False
    with A ex show ?thesis by (simp add: not_le less_imp_le)
  qed
qed

lemma pow2_less_iff: "(2::rat) powi a < 2 powi b \<longleftrightarrow> a < b"
proof
  assume l: "(2::rat) powi a < 2 powi b"
  show "a < b"
  proof (rule ccontr)
    assume "\<not> a < b"
    then have "b \<le> a" by simp
    then have "(2::rat) powi b \<le> 2 powi a" by (rule power_int_increasing) simp
    with l show False by simp
  qed
next
  assume "a < b"
  then show "(2::rat) powi a < 2 powi b" by (rule power_int_strict_increasing) simp
qed

lemma pow2_le_iff: "(2::rat) powi a \<le> 2 powi b \<longleftrightarrow> a \<le> b"
  using pow2_less_iff [of b a] by (auto simp: not_less [symmetric])

lemma pow2_pos: "0 < (2::rat) powi k"
  by (simp add: zero_less_power_int)

lemma pow2_add: "(2::rat) powi a * 2 powi b = 2 powi (a + b)"
  by (simp add: power_int_add)

lemma exponent_unique:
  assumes "2 powi e \<le> \<bar>x\<bar>" and "\<bar>x\<bar> < 2 powi (e + 1)"
  shows "exponent x = e"
proof -
  have pw: "0 < (2::rat) powi k" for k by (simp add: zero_less_power_int)
  have x0: "x \<noteq> 0"
  proof
    assume "x = 0"
    with assms(1) have "2 powi e \<le> (0::rat)" by simp
    with pw [of e] show False by linarith
  qed
  from exponent_bounds [OF x0]
  have b: "2 powi exponent x \<le> \<bar>x\<bar>" "\<bar>x\<bar> < 2 powi (exponent x + 1)" by auto
  have "(2::rat) powi e < 2 powi (exponent x + 1)" using assms(1) b(2) by simp
  then have 1: "e < exponent x + 1" by (simp add: pow2_less_iff)
  have "(2::rat) powi exponent x < 2 powi (e + 1)" using assms(2) b(1) by simp
  then have 2: "exponent x < e + 1" by (simp add: pow2_less_iff)
  from 1 2 show ?thesis by simp
qed

lemma round_half_even_cases:
  "round_half_even x = \<lfloor>x\<rfloor> \<or> round_half_even x = \<lfloor>x\<rfloor> + 1"
  by (simp add: round_half_even_def Let_def)

lemma round_half_even_of_int: "round_half_even (of_int k) = k"
  by (simp add: round_half_even_def)

lemma round_half_even_ge: "of_int n \<le> x \<Longrightarrow> n \<le> round_half_even x"
proof -
  assume "of_int n \<le> x"
  then have "n \<le> \<lfloor>x\<rfloor>" by (simp add: le_floor_iff)
  with round_half_even_cases [of x] show ?thesis by auto
qed

lemma round_half_even_le: "x \<le> of_int n \<Longrightarrow> round_half_even x \<le> n"
proof (cases "x = of_int \<lfloor>x\<rfloor>")
  case True
  assume "x \<le> of_int n"
  with True have "\<lfloor>x\<rfloor> \<le> n" by (metis of_int_le_iff)
  moreover from True have "round_half_even x = \<lfloor>x\<rfloor>"
    by (metis round_half_even_of_int)
  ultimately show ?thesis by simp
next
  case False
  assume a: "x \<le> of_int n"
  have "of_int \<lfloor>x\<rfloor> \<le> x" by (rule of_int_floor_le)
  with False have "of_int \<lfloor>x\<rfloor> < x" by (metis less_le)
  with a have "of_int \<lfloor>x\<rfloor> < (of_int n :: rat)" by simp
  then have "\<lfloor>x\<rfloor> < n" by simp
  with round_half_even_cases [of x] show ?thesis by auto
qed

lemma round_half_even_mono: "x \<le> y \<Longrightarrow> round_half_even x \<le> round_half_even y"
proof -
  assume xy: "x \<le> y"
  then have f: "\<lfloor>x\<rfloor> \<le> \<lfloor>y\<rfloor>" by (rule floor_mono)
  show ?thesis
  proof (cases "\<lfloor>x\<rfloor> = \<lfloor>y\<rfloor>")
    case True
    then show ?thesis using xy
      by (auto simp: round_half_even_def Let_def)
  next
    case False
    with f have "\<lfloor>x\<rfloor> + 1 \<le> \<lfloor>y\<rfloor>" by simp
    with round_half_even_cases [of x] round_half_even_cases [of y] show ?thesis by auto
  qed
qed

lemma round_half_even_minus: "round_half_even (- x) = - round_half_even x"
proof (cases "x = of_int \<lfloor>x\<rfloor>")
  case True
  then obtain k where "x = of_int k" ..
  then show ?thesis
    by (metis of_int_minus round_half_even_of_int)
next
  case False
  then have c: "\<lceil>x\<rceil> = \<lfloor>x\<rfloor> + 1" by (simp add: ceiling_altdef)
  have fm: "\<lfloor>- x\<rfloor> = - \<lfloor>x\<rfloor> - 1"
    using c by (simp add: floor_minus)
  show ?thesis
    unfolding round_half_even_def Let_def fm
    by (auto simp: algebra_simps)
qed

lemma exponent_minus: "exponent (- x) = exponent x"
  by (simp add: exponent_def)

lemma fl_minus: "fl (- x) = - fl x"
  by (simp add: fl_def exponent_minus round_half_even_minus Let_def)

lemma fl_0: "fl 0 = 0"
  by (simp add: fl_def)

lemma pow2_le_abs_nonzero: "2 powi e \<le> \<bar>x :: rat\<bar> \<Longrightarrow> x \<noteq> 0"
proof
  assume "2 powi e \<le> \<bar>x\<bar>" and "x = 0"
  then have "2 powi e \<le> (0::rat)" by simp
  with pow2_pos [of e] show False by linarith
qed

lemma fl_eval:
  assumes "2 powi e \<le> \<bar>x\<bar>" and "\<bar>x\<bar> < 2 powi (e + 1)"
  shows "fl x = of_int (round_half_even (x / 2 powi (e - 52))) * 2 powi (e - 52)"
proof -
  from assms(1) have "x \<noteq> 0" by (rule pow2_le_abs_nonzero)
  with exponent_unique [OF assms] show ?thesis by (simp add: fl_def Let_def)
qed

lemma fl_pos_bounds:
  assumes "0 < x"
  shows "2 powi exponent x \<le> fl x \<and> fl x \<le> 2 powi (exponent x + 1)"
proof -
  define e where "e = exponent x"
  define p where "p = (2::rat) powi (e - 52)"
  have p0: "0 < p" by (simp add: p_def pow2_pos)
  from assms have x0: "x \<noteq> 0" by simp
  from exponent_bounds [OF x0] assms
  have b: "2 powi e \<le> x" "x < 2 powi (e + 1)" by (simp_all add: e_def)
  have "(2::rat) powi 52 * 2 powi (e - 52) = 2 powi e" by (subst pow2_add) simp
  then have lo: "2 powi e = of_int (2 ^ 52) * p" by (simp add: p_def)
  have "(2::rat) powi 53 * 2 powi (e - 52) = 2 powi (e + 1)"
    by (subst pow2_add) (simp add: add.commute)
  then have hi: "2 powi (e + 1) = of_int (2 ^ 53) * p" by (simp add: p_def)
  define s where "s = x / p"
  have xs: "x = s * p" using p0 by (simp add: s_def)
  have "of_int (2 ^ 52) * p \<le> s * p" using b(1) lo xs by simp
  then have "of_int (2 ^ 52) \<le> s" using p0 by simp
  then have r1: "2 ^ 52 \<le> round_half_even s" by (rule round_half_even_ge)
  have "s * p < of_int (2 ^ 53) * p" using b(2) hi xs by simp
  then have "s \<le> of_int (2 ^ 53)" using p0 by simp
  then have r2: "round_half_even s \<le> 2 ^ 53" by (rule round_half_even_le)
  have f: "fl x = of_int (round_half_even s) * p"
    using x0 by (simp add: fl_def Let_def e_def p_def s_def)
  have "of_int (2 ^ 52) * p \<le> of_int (round_half_even s) * p"
    using r1 p0 by (simp only: mult_le_cancel_right_pos of_int_le_iff)
  moreover have "of_int (round_half_even s) * p \<le> of_int (2 ^ 53) * p"
    using r2 p0 by (simp only: mult_le_cancel_right_pos of_int_le_iff)
  ultimately show ?thesis using f lo hi by (simp add: e_def)
qed

lemma exponent_mono:
  assumes "0 < x" and "x \<le> y"
  shows "exponent x \<le> exponent y"
proof -
  from assms have x0: "x \<noteq> 0" and y0: "y \<noteq> 0" by simp_all
  from exponent_bounds [OF x0] assms have "2 powi exponent x \<le> x" by simp
  also note assms(2)
  also from exponent_bounds [OF y0] assms have "y < 2 powi (exponent y + 1)" by simp
  finally have "exponent x < exponent y + 1" by (simp add: pow2_less_iff)
  then show ?thesis by simp
qed

lemma fl_mono_pos:
  assumes "0 < x" and "x \<le> y"
  shows "fl x \<le> fl y"
proof (cases "exponent x = exponent y")
  case True
  from assms have x0: "x \<noteq> 0" and y0: "y \<noteq> 0" by simp_all
  define p where "p = (2::rat) powi (exponent y - 52)"
  have p0: "0 < p" by (simp add: p_def pow2_pos)
  have "x / p \<le> y / p" using assms(2) p0 by (simp add: divide_right_mono)
  then have "round_half_even (x / p) \<le> round_half_even (y / p)" by (rule round_half_even_mono)
  then have "of_int (round_half_even (x / p)) * p \<le> of_int (round_half_even (y / p)) * p"
    using p0 by (simp only: mult_le_cancel_right_pos of_int_le_iff)
  then show ?thesis using x0 y0 True by (simp add: fl_def Let_def p_def)
next
  case False
  with exponent_mono [OF assms] have "exponent x + 1 \<le> exponent y" by simp
  then have "(2::rat) powi (exponent x + 1) \<le> 2 powi exponent y" by (simp add: pow2_le_iff)
  moreover from fl_pos_bounds [OF assms(1)] have "fl x \<le> 2 powi (exponent x + 1)" by simp
  moreover from assms have "0 < y" by simp
  from fl_pos_bounds [OF this] have "2 powi exponent y \<le> fl y" by simp
  ultimately show ?thesis by linarith
qed

lemma fl_pos: "0 < x \<Longrightarrow> 0 < fl x"
  using fl_pos_bounds [of x] pow2_pos [of "exponent x"] by linarith

lemma fl_nonneg: "0 \<le> x \<Longrightarrow> 0 \<le> fl x"
  using fl_pos [of x] by (cases "x = 0") (auto simp: fl_0 less_le)

lemma fl_nonpos: "x \<le> 0 \<Longrightarrow> fl x \<le> 0"
  using fl_nonneg [of "- x"] by (simp add: fl_minus)

lemma fl_mono:
  assumes "x \<le> y"
  shows "fl x \<le> fl y"
proof -
  consider "0 < x" | "x \<le> 0" "0 \<le> y" | "y < 0" by linarith
  then show ?thesis
  proof cases
    case 1
    then show ?thesis using assms by (rule fl_mono_pos)
  next
    case 2
    then show ?thesis using fl_nonpos [of x] fl_nonneg [of y] by linarith
  next
    case 3
    then have "0 < - y" and "- y \<le> - x" using assms by simp_all
    then have "fl (- y) \<le> fl (- x)" by (rule fl_mono_pos)
    then show ?thesis by (simp add: fl_minus)
  qed
qed

lemma round_half_even_divide:
  assumes "0 < b"
  shows "round_half_even (of_int a / of_int b) =
     (let n = a div b; r2 = 2 * (a mod b)
      in if r2 < b then n else if b < r2 then n + 1 else if even n then n else n + 1)"
proof -
  have f: "\<lfloor>(of_int a / of_int b :: rat)\<rfloor> = a div b"
    by (simp add: floor_divide_of_int_eq)
  have B: "0 < (of_int b :: rat)" using assms by simp
  have "(of_int a :: rat) = of_int (a div b) * of_int b + of_int (a mod b)"
    by (metis of_int_add of_int_mult div_mult_mod_eq)
  then have r: "(of_int a / of_int b :: rat) - of_int (a div b) = of_int (a mod b) / of_int b"
    using B by (simp add: field_simps)
  have lt: "(of_int (a mod b) / of_int b :: rat) < 1 / 2 \<longleftrightarrow> 2 * (a mod b) < b"
  proof -
    have "(of_int (a mod b) / of_int b :: rat) < 1 / 2 \<longleftrightarrow> (of_int (2 * (a mod b)) :: rat) < of_int b"
      using B by (simp add: field_simps)
    then show ?thesis by (simp only: of_int_less_iff)
  qed
  have gt: "1 / 2 < (of_int (a mod b) / of_int b :: rat) \<longleftrightarrow> b < 2 * (a mod b)"
  proof -
    have "1 / 2 < (of_int (a mod b) / of_int b :: rat) \<longleftrightarrow> (of_int b :: rat) < of_int (2 * (a mod b))"
      using B by (simp add: field_simps)
    then show ?thesis by (simp only: of_int_less_iff)
  qed
  show ?thesis
    unfolding round_half_even_def Let_def f r lt gt ..
qed

subsection \<open>From a timestamp to an instant\<close>

lemma trunc_mono: "x \<le> y \<Longrightarrow> trunc x \<le> trunc y"
proof -
  assume xy: "x \<le> y"
  consider "0 \<le> x" | "x < 0" "0 \<le> y" | "y < 0" by linarith
  then show ?thesis
  proof cases
    case 1
    with xy show ?thesis by (simp add: trunc_def floor_mono)
  next
    case 2
    then have "\<lceil>x\<rceil> \<le> 0" by (simp add: ceiling_le_iff)
    moreover from 2 have "0 \<le> \<lfloor>y\<rfloor>" by simp
    moreover from 2 have "trunc x = \<lceil>x\<rceil>" "trunc y = \<lfloor>y\<rfloor>"
      by (simp_all add: trunc_def)
    ultimately show ?thesis by linarith
  next
    case 3
    with xy show ?thesis by (simp add: trunc_def ceiling_mono)
  qed
qed

lemma trunc_of_int: "trunc (of_int k) = k"
  by (simp add: trunc_def)

lemma fl_million: "fl 1000000 = 1000000"
proof -
  have "fl 1000000 = of_int (round_half_even (1000000 / 2 powi (19 - 52))) * 2 powi (19 - 52)"
    by (rule fl_eval) simp_all
  also have "(1000000 :: rat) / 2 powi (19 - 52) = of_int 8589934592000000"
    by simp
  finally show ?thesis unfolding round_half_even_of_int by simp
qed

text \<open>The microseconds that the fraction of a timestamp rounds to: sign and size.\<close>

lemma frac_us_nonneg:
  assumes "0 \<le> t"
  shows "0 \<le> round_half_even (fl ((t - of_int (trunc t)) * 1000000))"
    and "round_half_even (fl ((t - of_int (trunc t)) * 1000000)) \<le> 1000000"
proof -
  let ?f = "t - of_int (trunc t)"
  have tr: "trunc t = \<lfloor>t\<rfloor>" using assms by (simp add: trunc_def)
  have f0: "0 \<le> ?f" and f1: "?f \<le> 1" unfolding tr by linarith+
  from f0 have "0 \<le> fl (?f * 1000000)" by (intro fl_nonneg) simp
  then have "of_int 0 \<le> fl (?f * 1000000)" by simp
  then show "0 \<le> round_half_even (fl (?f * 1000000))" by (rule round_half_even_ge)
  from f1 have "fl (?f * 1000000) \<le> fl 1000000" by (intro fl_mono) simp
  then have "fl (?f * 1000000) \<le> of_int 1000000" by (simp add: fl_million)
  then show "round_half_even (fl (?f * 1000000)) \<le> 1000000" by (rule round_half_even_le)
qed

lemma frac_us_nonpos:
  assumes "t < 0"
  shows "round_half_even (fl ((t - of_int (trunc t)) * 1000000)) \<le> 0"
    and "- 1000000 \<le> round_half_even (fl ((t - of_int (trunc t)) * 1000000))"
proof -
  let ?f = "t - of_int (trunc t)"
  have tr: "trunc t = \<lceil>t\<rceil>" using assms by (simp add: trunc_def)
  have f0: "?f \<le> 0" and f1: "- 1 \<le> ?f" unfolding tr by linarith+
  from f0 have "fl (?f * 1000000) \<le> 0" by (intro fl_nonpos) (simp add: mult_le_0_iff)
  then have "fl (?f * 1000000) \<le> of_int 0" by simp
  then show "round_half_even (fl (?f * 1000000)) \<le> 0" by (rule round_half_even_le)
  from f1 have "fl (- 1000000) \<le> fl (?f * 1000000)" by (intro fl_mono) simp
  then have "of_int (- 1000000) \<le> fl (?f * 1000000)" by (simp add: fl_minus fl_million)
  then show "- 1000000 \<le> round_half_even (fl (?f * 1000000))" by (rule round_half_even_ge)
qed

lemma fromtimestamp_us_mono:
  assumes "s \<le> t"
  shows "fromtimestamp_us s \<le> fromtimestamp_us t"
proof (cases "trunc s = trunc t")
  case True
  have "(s - of_int (trunc s)) * 1000000 \<le> (t - of_int (trunc t)) * 1000000"
    using assms True by simp
  then have "round_half_even (fl ((s - of_int (trunc s)) * 1000000))
           \<le> round_half_even (fl ((t - of_int (trunc t)) * 1000000))"
    by (intro round_half_even_mono fl_mono)
  then show ?thesis using True by (simp add: fromtimestamp_us_def Let_def)
next
  case False
  with trunc_mono [OF assms] have lt: "trunc s + 1 \<le> trunc t" by simp
  let ?us = "\<lambda>t. round_half_even (fl ((t - of_int (trunc t)) * 1000000))"
  have eq: "fromtimestamp_us u = trunc u * 1000000 + ?us u" for u
    by (simp add: fromtimestamp_us_def Let_def)
  consider "0 \<le> s" | "s < 0" "0 \<le> t" | "t < 0" by linarith
  then show ?thesis
  proof cases
    case 1
    then have "0 \<le> t" using assms by simp
    from frac_us_nonneg(2) [OF 1] frac_us_nonneg(1) [OF this] lt show ?thesis
      unfolding eq by linarith
  next
    case 2
    from frac_us_nonpos(1) [OF 2(1)] frac_us_nonneg(1) [OF 2(2)] lt show ?thesis
      unfolding eq by linarith
  next
    case 3
    then have "s < 0" using assms by simp
    from frac_us_nonpos(1) [OF this] frac_us_nonpos(2) [OF 3] lt show ?thesis
      unfolding eq by linarith
  qed
qed

lemma fromtimestamp_us_of_int: "fromtimestamp_us (of_int k) = k * 1000000"
  by (simp add: fromtimestamp_us_def trunc_of_int fl_0 round_half_even_of_int [of 0, simplified])

lemma drop_bit_22_mono: "m \<le> n \<Longrightarrow> drop_bit 22 m \<le> drop_bit 22 (n::int)"
  by (simp add: drop_bit_eq_div zdiv_mono1)

lemma snowflake_to_datetime_Inr:
  "snowflake_to_datetime f (PInt n) = Inr a \<longleftrightarrow>
     \<bar>fl (of_int (drop_bit 22 n + FLUXER_EPOCH) / 1000)\<bar> < 2 powi 1024
     \<and> a = fromtimestamp_us (fl (of_int (drop_bit 22 n + FLUXER_EPOCH) / 1000))
     \<and> MIN_DATETIME \<le> a \<and> a \<le> MAX_DATETIME"
  by (auto simp: snowflake_to_datetime_def bind_err_def truediv_def fromtimestamp_def Let_def
      not_le)

lemma snowflake_to_datetime_mono:
  assumes "m \<le> n"
      and "snowflake_to_datetime f (PInt m) = Inr a"
      and "snowflake_to_datetime f (PInt n) = Inr b"
  shows "a \<le> b"
proof -
  from assms(1) have "drop_bit 22 m + FLUXER_EPOCH \<le> drop_bit 22 n + FLUXER_EPOCH"
    by (simp add: drop_bit_22_mono)
  then have "(of_int (drop_bit 22 m + FLUXER_EPOCH) / 1000 :: rat)
           \<le> of_int (drop_bit 22 n + FLUXER_EPOCH) / 1000"
    by (simp add: divide_right_mono)
  then have "fromtimestamp_us (fl (of_int (drop_bit 22 m + FLUXER_EPOCH) / 1000))
           \<le> fromtimestamp_us (fl (of_int (drop_bit 22 n + FLUXER_EPOCH) / 1000))"
    by (intro fromtimestamp_us_mono fl_mono)
  with assms(2,3) show ?thesis by (simp add: snowflake_to_datetime_Inr)
qed

lemma trunc_divide: "0 \<le> a \<Longrightarrow> 0 < b \<Longrightarrow> trunc (of_int a / of_int b) = a div b"
  by (simp add: trunc_def floor_divide_of_int_eq)

lemma fl_2_33: "fl 8589934592 = 8589934592"
proof -
  have "fl 8589934592 = of_int (round_half_even (8589934592 / 2 powi (33 - 52))) * 2 powi (33 - 52)"
    by (rule fl_eval) simp_all
  also have "(8589934592 :: rat) / 2 powi (33 - 52) = of_int 4503599627370496"
    by simp
  finally show ?thesis unfolding round_half_even_of_int by simp
qed

lemma snowflake_to_datetime_defined:
  assumes "0 \<le> n" and "n < 2 ^ 64"
  shows "\<exists>a. snowflake_to_datetime f (PInt n) = Inr a"
proof -
  define ms where "ms = drop_bit 22 n + FLUXER_EPOCH"
  define q where "q = fl (of_int ms / 1000)"
  have d0: "0 \<le> drop_bit 22 n" using assms(1) by simp
  have d1: "drop_bit 22 n < 2 ^ 42"
  proof -
    from assms(2) have "n < 18446744073709551616" by simp
    then have "n div 4194304 < 4398046511104" by presburger
    then show ?thesis by (simp add: drop_bit_eq_div)
  qed
  have m0: "0 \<le> ms" and m1: "ms \<le> 8589934592000"
    using d0 d1 by (simp_all add: ms_def FLUXER_EPOCH_def)
  have x0: "0 \<le> (of_int ms / 1000 :: rat)" using m0 by simp
  have "(of_int ms :: rat) \<le> of_int 8589934592000" using m1 by (simp only: of_int_le_iff)
  then have x1: "(of_int ms / 1000 :: rat) \<le> 8589934592" by simp
  have q0: "0 \<le> q" unfolding q_def using x0 by (rule fl_nonneg)
  have q1: "q \<le> 8589934592" unfolding q_def using fl_mono [OF x1] by (simp add: fl_2_33)
  have ov: "\<bar>q\<bar> < 2 powi 1024" using q0 q1 by simp
  have "fromtimestamp_us (of_int 0) \<le> fromtimestamp_us q"
    using q0 by (intro fromtimestamp_us_mono) simp
  then have a0: "0 \<le> fromtimestamp_us q" using fromtimestamp_us_of_int [of 0] by simp
  have "fromtimestamp_us q \<le> fromtimestamp_us (of_int 8589934592)"
    using q1 by (intro fromtimestamp_us_mono) simp
  then have a1: "fromtimestamp_us q \<le> 8589934592000000"
    using fromtimestamp_us_of_int [of 8589934592] by simp
  show ?thesis
    using ov a0 a1
    by (simp add: snowflake_to_datetime_Inr MIN_DATETIME_def MAX_DATETIME_def
        flip: ms_def q_def)
qed

subsection \<open>Concrete conversions\<close>

text \<open>
  The identifier \<open>175928847299117063\<close> and the one a millisecond later: the instants
  2016-04-30T11:18:25.796Z and 2016-04-30T11:18:25.797Z.
\<close>

lemma snowflake_to_datetime_2016:
  "snowflake_to_datetime f (PInt 175928847299117063) = Inr 1462015105796000"
proof -
  have q: "fl (365503776449 / 250) = 3066067903150293 / 2097152"
  proof -
    have "fl (365503776449 / 250)
        = of_int (round_half_even ((365503776449 / 250) / 2 powi (30 - 52))) * 2 powi (30 - 52)"
      by (rule fl_eval) simp_all
    also have "(365503776449 / 250 :: rat) / 2 powi (30 - 52) = of_int 766516975787573248 / of_int 125"
      by simp
    also have "round_half_even (of_int 766516975787573248 / of_int 125) = 6132135806300586"
      by (subst round_half_even_divide) simp_all
    finally show ?thesis by simp
  qed
  have ip: "trunc (3066067903150293 / 2097152) = 1462015105"
    using trunc_divide [of 3066067903150293 2097152] by simp
  have h: "fl (26083328125 / 32768) = 26083328125 / 32768"
  proof -
    have "fl (26083328125 / 32768)
        = of_int (round_half_even ((26083328125 / 32768) / 2 powi (19 - 52))) * 2 powi (19 - 52)"
      by (rule fl_eval) simp_all
    also have "(26083328125 / 32768 :: rat) / 2 powi (19 - 52) = of_int 6837587968000000 / of_int 1"
      by simp
    also have "round_half_even (of_int 6837587968000000 / of_int 1) = 6837587968000000"
      by (subst round_half_even_divide) simp_all
    finally show ?thesis by simp
  qed
  have us: "round_half_even (26083328125 / 32768) = 796000"
    using round_half_even_divide [of 32768 26083328125] by simp
  have t: "fromtimestamp_us (3066067903150293 / 2097152) = 1462015105796000"
    by (simp add: fromtimestamp_us_def Let_def ip h us)
  show ?thesis
    by (simp add: snowflake_to_datetime_def bind_err_def truediv_def fromtimestamp_def
        Let_def FLUXER_EPOCH_def q t MIN_DATETIME_def MAX_DATETIME_def)
qed

lemma snowflake_to_datetime_2016_next:
  "snowflake_to_datetime f (PInt 175928847303311367) = Inr 1462015105797000"
proof -
  have q: "fl (1462015105797 / 1000) = 1533033951576195 / 1048576"
  proof -
    have "fl (1462015105797 / 1000)
        = of_int (round_half_even ((1462015105797 / 1000) / 2 powi (30 - 52))) * 2 powi (30 - 52)"
      by (rule fl_eval) simp_all
    also have "(1462015105797 / 1000 :: rat) / 2 powi (30 - 52) = of_int 766516975788097536 / of_int 125"
      by simp
    also have "round_half_even (of_int 766516975788097536 / of_int 125) = 6132135806304780"
      by (subst round_half_even_divide) simp_all
    finally show ?thesis by simp
  qed
  have ip: "trunc (1533033951576195 / 1048576) = 1462015105"
    using trunc_divide [of 1533033951576195 1048576] by simp
  have h: "fl (13058046875 / 16384) = 13058046875 / 16384"
  proof -
    have "fl (13058046875 / 16384)
        = of_int (round_half_even ((13058046875 / 16384) / 2 powi (19 - 52))) * 2 powi (19 - 52)"
      by (rule fl_eval) simp_all
    also have "(13058046875 / 16384 :: rat) / 2 powi (19 - 52) = of_int 6846177280000000 / of_int 1"
      by simp
    also have "round_half_even (of_int 6846177280000000 / of_int 1) = 6846177280000000"
      by (subst round_half_even_divide) simp_all
    finally show ?thesis by simp
  qed
  have us: "round_half_even (13058046875 / 16384) = 797000"
    using round_half_even_divide [of 16384 13058046875] by simp
  have t: "fromtimestamp_us (1533033951576195 / 1048576) = 1462015105797000"
    by (simp add: fromtimestamp_us_def Let_def ip h us)
  show ?thesis
    by (simp add: snowflake_to_datetime_def bind_err_def truediv_def fromtimestamp_def
        Let_def FLUXER_EPOCH_def q t MIN_DATETIME_def MAX_DATETIME_def)
qed

text \<open>
  The instant 2039-01-01T00:00:00.002Z, \<open>2177452800002000\<close> microseconds after the
  epoch: \<open>dt.timestamp()\<close> is the float nearest to \<open>2177452800.002\<close>, its product
  with \<open>1000\<close> rounds to \<open>2177452800001.99976\<close>, and \<open>int\<close> cuts that to
  \<open>2177452800001\<close>.
\<close>

lemma datetime_to_snowflake_2039:
  "datetime_to_snowflake 2177452800002000 = 3176692029853794304"
proof -
  have ts: "fl (1088726400001 / 500) = 2283224747214897 / 1048576"
  proof -
    have "fl (1088726400001 / 500)
        = of_int (round_half_even ((1088726400001 / 500) / 2 powi (31 - 52))) * 2 powi (31 - 52)"
      by (rule fl_eval) simp_all
    also have "(1088726400001 / 500 :: rat) / 2 powi (31 - 52) = of_int 570806186803724288 / of_int 125"
      by simp
    also have "round_half_even (of_int 570806186803724288 / of_int 125) = 4566449494429794"
      by (subst round_half_even_divide) simp_all
    finally show ?thesis by simp
  qed
  have p: "fl (285403093401862125 / 131072) = 8918846668808191 / 4096"
  proof -
    have "fl (285403093401862125 / 131072)
        = of_int (round_half_even ((285403093401862125 / 131072) / 2 powi (40 - 52))) * 2 powi (40 - 52)"
      by (rule fl_eval) simp_all
    also have "(285403093401862125 / 131072 :: rat) / 2 powi (40 - 52) = of_int 285403093401862125 / of_int 32"
      by simp
    also have "round_half_even (of_int 285403093401862125 / of_int 32) = 8918846668808191"
      by (subst round_half_even_divide) simp_all
    finally show ?thesis by simp
  qed
  have ms: "trunc (8918846668808191 / 4096) = 2177452800001"
    using trunc_divide [of 8918846668808191 4096] by simp
  show ?thesis
    by (simp add: datetime_to_snowflake_def timestamp_def Let_def ts p ms
        FLUXER_EPOCH_def)
qed

lemma snowflake_to_datetime_2039:
  "snowflake_to_datetime f (PInt 3176692029853794304) = Inr 2177452800001000"
proof -
  have q: "fl (2177452800001 / 1000) = 4566449494427697 / 2097152"
  proof -
    have "fl (2177452800001 / 1000)
        = of_int (round_half_even ((2177452800001 / 1000) / 2 powi (31 - 52))) * 2 powi (31 - 52)"
      by (rule fl_eval) simp_all
    also have "(2177452800001 / 1000 :: rat) / 2 powi (31 - 52) = of_int 570806186803462144 / of_int 125"
      by simp
    also have "round_half_even (of_int 570806186803462144 / of_int 125) = 4566449494427697"
      by (subst round_half_even_divide) simp_all
    finally show ?thesis by simp
  qed
  have ip: "trunc (4566449494427697 / 2097152) = 2177452800"
    using trunc_divide [of 4566449494427697 2097152] by simp
  have h: "fl (32765625 / 32768) = 32765625 / 32768"
  proof -
    have "fl (32765625 / 32768)
        = of_int (round_half_even ((32765625 / 32768) / 2 powi (9 - 52))) * 2 powi (9 - 52)"
      by (rule fl_eval) simp_all
    also have "(32765625 / 32768 :: rat) / 2 powi (9 - 52) = of_int 8795455488000000 / of_int 1"
      by simp
    also have "round_half_even (of_int 8795455488000000 / of_int 1) = 8795455488000000"
      by (subst round_half_even_divide) simp_all
    finally show ?thesis by simp
  qed
  have us: "round_half_even (32765625 / 32768) = 1000"
    using round_half_even_divide [of 32768 32765625] by simp
  have t: "fromtimestamp_us (4566449494427697 / 2097152) = 2177452800001000"
    by (simp add: fromtimestamp_us_def Let_def ip h us)
  show ?thesis
    by (simp add: snowflake_to_datetime_def bind_err_def truediv_def fromtimestamp_def
        Let_def FLUXER_EPOCH_def q t MIN_DATETIME_def MAX_DATETIME_def)
qed

subsection \<open>Monotonicity\<close>

text \<open>
  C5: for identifiers \<open>m \<le> n\<close>, whenever \<open>snowflake_to_datetime\<close> returns an instant
  for both, the instant of \<open>m\<close> is not after the instant of \<open>n\<close>; and for identifiers
  in the unsigned 64-bit range it does return an instant for both.
\<close>

theorem snowflake_to_datetime_monotone:
  assumes "m \<le> n"
  shows "(\<forall>a b. snowflake_to_datetime f (PInt m) = Inr a
                \<and> snowflake_to_datetime f (PInt n) = Inr b \<longrightarrow> a \<le> b)
       \<and> (0 \<le> m \<and> n < 2 ^ 64 \<longrightarrow>
            (\<exists>a b. snowflake_to_datetime f (PInt m) = Inr a
                   \<and> snowflake_to_datetime f (PInt n) = Inr b \<and> a \<le> b))"
proof (intro conjI allI impI)
  fix a b
  assume "snowflake_to_datetime f (PInt m) = Inr a \<and> snowflake_to_datetime f (PInt n) = Inr b"
  then show "a \<le> b" using snowflake_to_datetime_mono [OF assms] by blast
next
  assume r: "0 \<le> m \<and> n < 2 ^ 64"
  with assms have "0 \<le> m" "m < 2 ^ 64" "0 \<le> n" "n < 2 ^ 64" by simp_all
  then obtain a b where a: "snowflake_to_datetime f (PInt m) = Inr a"
    and b: "snowflake_to_datetime f (PInt n) = Inr b"
    using snowflake_to_datetime_defined by blast
  with snowflake_to_datetime_mono [OF assms a b]
  show "\<exists>a b. snowflake_to_datetime f (PInt m) = Inr a
              \<and> snowflake_to_datetime f (PInt n) = Inr b \<and> a \<le> b"
    by blast
qed

theorem snowflake_to_datetime_monotone_witness:
  "snowflake_to_datetime (\<lambda>s. None) (PInt 175928847299117063) = Inr 1462015105796000
   \<and> snowflake_to_datetime (\<lambda>s. None) (PInt 175928847303311367) = Inr 1462015105797000
   \<and> (1462015105796000 :: int) \<le> 1462015105797000"
proof -
  have le: "(175928847299117063 :: int) \<le> 175928847303311367" by simp
  note a = snowflake_to_datetime_2016 [of "\<lambda>s. None"]
  note b = snowflake_to_datetime_2016_next [of "\<lambda>s. None"]
  from snowflake_to_datetime_monotone [OF le, of "\<lambda>s. None", THEN conjunct1, THEN spec, THEN spec,
      THEN mp, OF conjI, OF a b]
  show ?thesis using a b by simp
qed

subsection \<open>The round trip\<close>

text \<open>
  C6 does not hold of the code. The instant 2039-01-01T00:00:00.002Z has no
  sub-millisecond component and its identifier fits in 63 bits, yet
  \<open>datetime_to_snowflake\<close> yields the identifier of 2039-01-01T00:00:00.001Z:
  \<open>int(dt.timestamp() * 1000)\<close> truncates a float product that fell just below the
  whole number of milliseconds. Converting back gives the instant one millisecond
  earlier.
\<close>

theorem roundtrip_2039_loses_a_millisecond:
  "(2177452800002000 :: int) mod 1000 = 0
   \<and> MIN_DATETIME \<le> 2177452800002000 \<and> 2177452800002000 \<le> MAX_DATETIME
   \<and> datetime_to_snowflake 2177452800002000 = 3176692029853794304
   \<and> (3176692029853794304 :: int) < 2 ^ 63
   \<and> snowflake_to_datetime (\<lambda>s. None) (PInt (datetime_to_snowflake 2177452800002000))
       = Inr 2177452800001000"
  by (simp add: datetime_to_snowflake_2039 snowflake_to_datetime_2039 MIN_DATETIME_def
      MAX_DATETIME_def)

section \<open>Properties of the bound operations\<close>

lemma bind_err_Inr_iff:
  "bind_err r f = Inr y \<longleftrightarrow> (\<exists>x. r = Inr x \<and> f x = Inr y)"
  by (cases r) (simp_all add: bind_err_def)

lemma bind_err_InrE:
  assumes "bind_err r f = Inr y"
  obtains x where "r = Inr x" "f x = Inr y"
  using assms by (auto simp: bind_err_Inr_iff)

lemma bind_err_Inr: "bind_err (Inr x) f = f x"
  by (simp add: bind_err_def)

text \<open>
  C2: an entity whose transport reference is \<open>None\<close> fails every bound operation with
  the \<open>RuntimeError\<close> that names the missing binding, before anything is sent: the
  state of the world is returned unchanged, so no operation of a transport handle has
  run. The operations of a \<open>Reaction\<close> fail the same way when either the transport or
  the message is absent.
\<close>

theorem unbound_operations_fail:
  "(Channel_http c = None \<longrightarrow>
      Channel_send ext c content e es files mr w
        = (Inl (RuntimeError ''Channel is not bound to an HTTP client''), w)
      \<and> Channel_fetch_message ext c message_id w
        = (Inl (RuntimeError ''Channel is not bound to an HTTP client''), w))
   \<and> (Message_http m = None \<longrightarrow>
      Message_reply ext m content kwargs w
        = (Inl (RuntimeError ''Message is not bound to an HTTP client''), w)
      \<and> Message_edit ext m content kwargs w
        = (Inl (RuntimeError ''Message is not bound to an HTTP client''), w)
      \<and> Message_delete m w
        = (Inl (RuntimeError ''Message is not bound to an HTTP client''), w))
   \<and> (Reaction_http r = None \<or> Reaction_message r = None \<longrightarrow>
      Reaction_remove ext r user w
        = (Inl (RuntimeError ''Cannot remove reaction without HTTPClient and Message''), w)
      \<and> Reaction_clear r w
        = (Inl (RuntimeError ''Cannot clear reaction without HTTPClient and Message''), w))"
proof -
  have ch: "Channel_send ext c content e es files mr w
        = (Inl (RuntimeError ''Channel is not bound to an HTTP client''), w)
      \<and> Channel_fetch_message ext c message_id w
        = (Inl (RuntimeError ''Channel is not bound to an HTTP client''), w)"
    if "Channel_http c = None"
    using that by (simp add: Channel_send_def Channel_fetch_message_def)
  have ms: "Message_reply ext m content kwargs w
        = (Inl (RuntimeError ''Message is not bound to an HTTP client''), w)
      \<and> Message_edit ext m content kwargs w
        = (Inl (RuntimeError ''Message is not bound to an HTTP client''), w)
      \<and> Message_delete m w
        = (Inl (RuntimeError ''Message is not bound to an HTTP client''), w)"
    if "Message_http m = None"
    using that by (simp add: Message_reply_def Message_edit_def Message_delete_def)
  have re: "Reaction_remove ext r user w
        = (Inl (RuntimeError ''Cannot remove reaction without HTTPClient and Message''), w)
      \<and> Reaction_clear r w
        = (Inl (RuntimeError ''Cannot clear reaction without HTTPClient and Message''), w)"
    if "Reaction_http r = None \<or> Reaction_message r = None"
    using that by (auto simp: Reaction_remove_def Reaction_clear_def split: option.splits)
  from ch ms re show ?thesis by blast
qed

theorem unbound_operations_fail_witness:
  "Channel_send example_ext unbound_channel (PStr ''hi'') None None PNone PNone 0
     = (Inl (RuntimeError ''Channel is not bound to an HTTP client''), 0)
   \<and> Channel_fetch_message example_ext unbound_channel (PInt 7) 0
     = (Inl (RuntimeError ''Channel is not bound to an HTTP client''), 0)
   \<and> Message_reply example_ext unbound_message (PStr ''hi'') [] 0
     = (Inl (RuntimeError ''Message is not bound to an HTTP client''), 0)
   \<and> Message_edit example_ext unbound_message (PStr ''hi'') [] 0
     = (Inl (RuntimeError ''Message is not bound to an HTTP client''), 0)
   \<and> Message_delete unbound_message 0
     = (Inl (RuntimeError ''Message is not bound to an HTTP client''), 0)
   \<and> Reaction_remove example_ext detached_reaction (Inr (PInt 3)) 0
     = (Inl (RuntimeError ''Cannot remove reaction without HTTPClient and Message''), 0)
   \<and> Reaction_clear detached_reaction 0
     = (Inl (RuntimeError ''Cannot clear reaction without HTTPClient and Message''), 0)"
proof -
  have c: "Channel_http unbound_channel = None" by (simp add: unbound_channel_def)
  have m: "Message_http unbound_message = None" by (simp add: unbound_message_def)
  have r: "Reaction_http detached_reaction = None \<or> Reaction_message detached_reaction = None"
    by (simp add: detached_reaction_def)
  show ?thesis
    using unbound_operations_fail
      [of unbound_channel example_ext "PStr ''hi''" None None PNone PNone 0 "PInt 7"
          unbound_message "[]" detached_reaction "Inr (PInt 3)"] c m r
    by blast
qed

section \<open>Properties of hydration\<close>

lemma is_ok_Inr: "is_ok (Inr x)"
  by (simp add: is_ok_def)

lemma is_ok_iff: "is_ok r \<longleftrightarrow> (\<exists>x. r = Inr x)"
  by (cases r) (simp_all add: is_ok_def)

lemma message_no_author:
  "map_of data ''author'' = None \<Longrightarrow> Message_from_data ext data http = Inl (KeyError ''author'')"
  by (simp add: Message_from_data_def item_def bind_err_def)

lemma message_pinned_default:
  assumes "map_of data ''pinned'' = None" and "Message_from_data ext data http = Inr m"
  shows "Message_pinned m = PBool False"
  using assms(2) unfolding Message_from_data_def
  by (elim bind_err_InrE) (auto simp: get_default_def assms(1))

lemma message_ok_iff:
  "is_ok (Message_from_data ext data http) \<longleftrightarrow> message_parts_hydrate ext data http"
proof
  assume "is_ok (Message_from_data ext data http)"
  then obtain m where "Message_from_data ext data http = Inr m"
    by (auto simp: is_ok_iff)
  then show "message_parts_hydrate ext data http"
    unfolding Message_from_data_def message_parts_hydrate_def
    by (elim bind_err_InrE) (simp add: bind_err_Inr is_ok_Inr)
next
  assume "message_parts_hydrate ext data http"
  then obtain a author us mentions v i cv c ts g where
      "item data ''author'' = Inr a" "User_from_data ext a http = Inr author"
      "py_iter (get_default data ''mentions'' (PList [])) = Inr us"
      "map_err (\<lambda>u. User_from_data ext u http) us = Inr mentions"
      "item data ''id'' = Inr v" "py_int (str_to_int ext) v = Inr i"
      "item data ''channel_id'' = Inr cv" "py_int (str_to_int ext) cv = Inr c"
      "item data ''timestamp'' = Inr ts"
      "int_if_truthy (str_to_int ext) data ''guild_id'' = Inr g"
    unfolding message_parts_hydrate_def is_ok_iff bind_err_Inr_iff by blast
  then show "is_ok (Message_from_data ext data http)"
    by (simp add: Message_from_data_def bind_err_Inr is_ok_Inr)
qed

text \<open>
  C3, as stated, fails in its second half. The payload \<open>bad_id_message\<close> has every
  required key (\<open>author\<close>, \<open>id\<close>, \<open>channel_id\<close>, \<open>timestamp\<close>) and no \<open>pinned\<close>, yet
  hydration raises \<open>ValueError\<close>, because \<open>int("abc")\<close> does.
\<close>

theorem required_keys_counterexample:
  "map_of bad_id_message ''author'' = Some (PDict [(''id'', PStr ''7'')])
   \<and> map_of bad_id_message ''id'' = Some (PStr ''abc'')
   \<and> map_of bad_id_message ''channel_id'' = Some (PStr ''42'')
   \<and> map_of bad_id_message ''timestamp'' = Some (PStr ''2024-01-01T00:00:00Z'')
   \<and> map_of bad_id_message ''pinned'' = None
   \<and> Message_from_data example_ext bad_id_message None = Inl ValueError"
  by (simp add: Message_from_data_def example_ext_def bad_id_message_def bind_err_def item_def
      get_default_def decimal_literal_def digit_val_def)

text \<open>
  C3, amended: for every payload without the key \<open>author\<close>, hydrating a \<open>Message\<close>
  fails with a \<open>MalformedPayload\<close> hydration error, raised as \<open>KeyError('author')\<close>.
  For every payload without the key \<open>pinned\<close>, hydration succeeds exactly when all of
  the following hold, and the resulting message then has \<open>pinned = False\<close>: the
  required keys \<open>author\<close>, \<open>id\<close>, \<open>channel_id\<close> and \<open>timestamp\<close> are present;
  \<open>User.from_data\<close> accepts the author; \<open>mentions\<close> is absent or holds a value that
  can be iterated (a list, a dictionary or a string, not \<open>null\<close>, a boolean or a
  number) and \<open>User.from_data\<close> accepts each of its elements; \<open>int\<close> accepts
  \<open>id\<close> and \<open>channel_id\<close>; and \<open>guild_id\<close> is absent, false or accepted by
  \<open>int\<close>. The equivalence of success with these conditions holds for every payload,
  with or without \<open>pinned\<close>.
\<close>

theorem message_hydration_author_pinned:
  "(map_of data ''author'' = None \<longrightarrow>
      Message_from_data ext data http = Inl (KeyError ''author'')
      \<and> MalformedPayload (KeyError ''author''))
   \<and> (is_ok (Message_from_data ext data http) \<longleftrightarrow> message_parts_hydrate ext data http)
   \<and> (map_of data ''pinned'' = None \<longrightarrow>
        (\<forall>m. Message_from_data ext data http = Inr m \<longrightarrow> Message_pinned m = PBool False))"
proof (intro conjI impI allI)
  assume "map_of data ''author'' = None"
  then show "Message_from_data ext data http = Inl (KeyError ''author'')"
    by (rule message_no_author)
  show "MalformedPayload (KeyError ''author'')" by simp
next
  show "is_ok (Message_from_data ext data http) \<longleftrightarrow> message_parts_hydrate ext data http"
    by (rule message_ok_iff)
next
  fix m
  assume "map_of data ''pinned'' = None" and "Message_from_data ext data http = Inr m"
  then show "Message_pinned m = PBool False" by (rule message_pinned_default)
qed

theorem message_hydration_author_pinned_witness:
  "Message_from_data example_ext authorless_message None = Inl (KeyError ''author'')
   \<and> MalformedPayload (KeyError ''author'')
   \<and> is_ok (Message_from_data example_ext minimal_message None)
   \<and> (case Message_from_data example_ext minimal_message None of
         Inl e \<Rightarrow> False | Inr m \<Rightarrow> Message_pinned m = PBool False)
   \<and> map_of null_mentions_message ''pinned'' = None
   \<and> \<not> is_ok (Message_from_data example_ext null_mentions_message None)"
proof -
  note t = message_hydration_author_pinned
  have a: "map_of authorless_message ''author'' = None"
    by (simp add: authorless_message_def)
  have p: "map_of minimal_message ''pinned'' = None"
    by (simp add: minimal_message_def)
  have h: "message_parts_hydrate example_ext minimal_message None"
    by (simp add: message_parts_hydrate_def example_ext_def minimal_message_def bind_err_def
        item_def get_def get_default_def int_if_truthy_def decimal_literal_def digit_val_def
        is_ok_def)
  have n: "\<not> message_parts_hydrate example_ext null_mentions_message None"
    by (simp add: message_parts_hydrate_def example_ext_def null_mentions_message_def
        bind_err_def item_def get_def get_default_def int_if_truthy_def decimal_literal_def
        digit_val_def is_ok_def)
  have q: "map_of null_mentions_message ''pinned'' = None"
    by (simp add: null_mentions_message_def)
  have 1: "Message_from_data example_ext authorless_message None = Inl (KeyError ''author'')
           \<and> MalformedPayload (KeyError ''author'')"
    by (rule t [THEN conjunct1, THEN mp, OF a])
  have 2: "is_ok (Message_from_data example_ext minimal_message None)"
    using t [of minimal_message example_ext None, THEN conjunct2, THEN conjunct1] h by simp
  then obtain m where m: "Message_from_data example_ext minimal_message None = Inr m"
    by (auto simp: is_ok_iff)
  have 3: "Message_pinned m = PBool False"
    by (rule t [THEN conjunct2, THEN conjunct2, THEN mp, OF p, THEN spec, THEN mp, OF m])
  have 4: "\<not> is_ok (Message_from_data example_ext null_mentions_message None)"
    using t [of null_mentions_message example_ext None, THEN conjunct2, THEN conjunct1] n
    by simp
  show ?thesis using 1 2 3 4 q by (simp add: m)
qed

subsection \<open>Optional identifiers that are present but false\<close>

lemma map_of_without_key:
  "map_of (without_key k data) k' = (if k' = k then None else map_of data k')"
  by (induction data) (auto simp: without_key_def)

lemma item_without_other: "k' \<noteq> k \<Longrightarrow> item (without_key k data) k' = item data k'"
  by (simp add: item_def map_of_without_key)

lemma get_default_without_other:
  "k' \<noteq> k \<Longrightarrow> get_default (without_key k data) k' d = get_default data k' d"
  by (simp add: get_default_def map_of_without_key)

lemma get_without_other: "k' \<noteq> k \<Longrightarrow> get (without_key k data) k' = get data k'"
  by (simp add: get_def get_default_without_other)

lemma int_if_truthy_without_other:
  "k' \<noteq> k \<Longrightarrow> int_if_truthy f (without_key k data) k' = int_if_truthy f data k'"
  by (simp add: int_if_truthy_def get_without_other item_without_other)

lemma int_if_truthy_falsy:
  "map_of data k = Some v \<Longrightarrow> \<not> truthy v \<Longrightarrow> int_if_truthy f data k = Inr None"
  by (simp add: int_if_truthy_def get_def get_default_def)

lemma int_if_truthy_without_same: "int_if_truthy f (without_key k data) k = Inr None"
  by (simp add: int_if_truthy_def get_def get_default_def map_of_without_key)

lemmas without_other =
  item_without_other get_default_without_other get_without_other int_if_truthy_without_other

lemma channel_falsy_guild_id:
  assumes "map_of data ''guild_id'' = Some v" "\<not> truthy v"
  shows "Channel_from_data ext data http = Channel_from_data ext (without_key ''guild_id'' data) http"
    and "Channel_from_data ext data http = Inr c \<Longrightarrow> Channel_guild_id c = None"
proof -
  have g: "int_if_truthy (str_to_int ext) data ''guild_id'' = Inr None"
    by (rule int_if_truthy_falsy [OF assms])
  show "Channel_from_data ext data http = Channel_from_data ext (without_key ''guild_id'' data) http"
    by (simp add: Channel_from_data_def without_other g int_if_truthy_without_same)
  show "Channel_guild_id c = None" if "Channel_from_data ext data http = Inr c"
    using that unfolding Channel_from_data_def g
    by (elim bind_err_InrE) auto
qed

lemma channel_falsy_parent_id:
  assumes "map_of data ''parent_id'' = Some v" "\<not> truthy v"
  shows "Channel_from_data ext data http = Channel_from_data ext (without_key ''parent_id'' data) http"
    and "Channel_from_data ext data http = Inr c \<Longrightarrow> Channel_parent_id c = None"
proof -
  have g: "int_if_truthy (str_to_int ext) data ''parent_id'' = Inr None"
    by (rule int_if_truthy_falsy [OF assms])
  show "Channel_from_data ext data http = Channel_from_data ext (without_key ''parent_id'' data) http"
    by (simp add: Channel_from_data_def without_other g int_if_truthy_without_same)
  show "Channel_parent_id c = None" if "Channel_from_data ext data http = Inr c"
    using that unfolding Channel_from_data_def g
    by (elim bind_err_InrE) auto
qed

lemma guild_falsy_owner_id:
  assumes "map_of data ''owner_id'' = Some v" "\<not> truthy v"
  shows "Guild_from_data ext data http = Guild_from_data ext (without_key ''owner_id'' data) http"
    and "Guild_from_data ext data http = Inr g \<Longrightarrow> Guild_owner_id g = None"
proof -
  have g: "int_if_truthy (str_to_int ext) data ''owner_id'' = Inr None"
    by (rule int_if_truthy_falsy [OF assms])
  show "Guild_from_data ext data http = Guild_from_data ext (without_key ''owner_id'' data) http"
    by (simp add: Guild_from_data_def without_other g int_if_truthy_without_same)
  show "Guild_owner_id g = None" if "Guild_from_data ext data http = Inr g"
    using that unfolding Guild_from_data_def g
    by (elim bind_err_InrE) auto
qed

lemma message_falsy_guild_id:
  assumes "map_of data ''guild_id'' = Some v" "\<not> truthy v"
  shows "Message_from_data ext data http = Message_from_data ext (without_key ''guild_id'' data) http"
    and "Message_from_data ext data http = Inr m \<Longrightarrow> Message_guild_id m = None"
proof -
  have g: "int_if_truthy (str_to_int ext) data ''guild_id'' = Inr None"
    by (rule int_if_truthy_falsy [OF assms])
  show "Message_from_data ext data http = Message_from_data ext (without_key ''guild_id'' data) http"
    by (simp add: Message_from_data_def without_other g int_if_truthy_without_same)
  show "Message_guild_id m = None" if "Message_from_data ext data http = Inr m"
    using that unfolding Message_from_data_def g
    by (elim bind_err_InrE) auto
qed

lemma partial_emoji_falsy_id:
  assumes "map_of data ''id'' = Some v" "\<not> truthy v"
  shows "PartialEmoji_from_data f data = PartialEmoji_from_data f (without_key ''id'' data)"
    and "PartialEmoji_from_data f data = Inr p \<Longrightarrow> PartialEmoji_id p = None"
proof -
  have a: "get data ''id'' = v" using assms by (simp add: get_def get_default_def)
  have b: "get (without_key ''id'' data) ''id'' = PNone"
    by (simp add: get_def get_default_def map_of_without_key)
  show "PartialEmoji_from_data f data = PartialEmoji_from_data f (without_key ''id'' data)"
    using assms(2) by (simp add: PartialEmoji_from_data_def a b without_other bind_err_Inr)
  show "PartialEmoji_id p = None" if "PartialEmoji_from_data f data = Inr p"
    using that assms(2) by (auto simp: PartialEmoji_from_data_def a bind_err_Inr)
qed

text \<open>
  C9: when an optional identifier key (\<open>guild_id\<close> and \<open>parent_id\<close> of a channel,
  \<open>owner_id\<close> of a guild, \<open>guild_id\<close> of a message, \<open>id\<close> of a partial emoji) is
  present with a value Python takes as false, such as \<open>0\<close> or \<open>""\<close>, hydration does
  exactly what it does on the payload without the key, and the field of the resulting
  entity is \<open>None\<close>: a zero identifier is never kept as \<open>0\<close>.
\<close>

theorem falsy_optional_id_is_None:
  assumes "\<not> truthy v"
  shows "(map_of data ''guild_id'' = Some v \<longrightarrow>
            Channel_from_data ext data http
              = Channel_from_data ext (without_key ''guild_id'' data) http
            \<and> (\<forall>c. Channel_from_data ext data http = Inr c \<longrightarrow> Channel_guild_id c = None))
       \<and> (map_of data ''parent_id'' = Some v \<longrightarrow>
            Channel_from_data ext data http
              = Channel_from_data ext (without_key ''parent_id'' data) http
            \<and> (\<forall>c. Channel_from_data ext data http = Inr c \<longrightarrow> Channel_parent_id c = None))
       \<and> (map_of data ''owner_id'' = Some v \<longrightarrow>
            Guild_from_data ext data http
              = Guild_from_data ext (without_key ''owner_id'' data) http
            \<and> (\<forall>g. Guild_from_data ext data http = Inr g \<longrightarrow> Guild_owner_id g = None))
       \<and> (map_of data ''guild_id'' = Some v \<longrightarrow>
            Message_from_data ext data http
              = Message_from_data ext (without_key ''guild_id'' data) http
            \<and> (\<forall>m. Message_from_data ext data http = Inr m \<longrightarrow> Message_guild_id m = None))
       \<and> (map_of data ''id'' = Some v \<longrightarrow>
            PartialEmoji_from_data (str_to_int ext) data
              = PartialEmoji_from_data (str_to_int ext) (without_key ''id'' data)
            \<and> (\<forall>p. PartialEmoji_from_data (str_to_int ext) data = Inr p
                   \<longrightarrow> PartialEmoji_id p = None))"
proof (intro conjI impI allI)
  assume k: "map_of data ''guild_id'' = Some v"
  show "Channel_from_data ext data http = Channel_from_data ext (without_key ''guild_id'' data) http"
    by (rule channel_falsy_guild_id(1) [OF k assms])
  show "Channel_guild_id c = None" if "Channel_from_data ext data http = Inr c" for c
    by (rule channel_falsy_guild_id(2) [OF k assms that])
  show "Message_from_data ext data http = Message_from_data ext (without_key ''guild_id'' data) http"
    by (rule message_falsy_guild_id(1) [OF k assms])
  show "Message_guild_id m = None" if "Message_from_data ext data http = Inr m" for m
    by (rule message_falsy_guild_id(2) [OF k assms that])
next
  assume k: "map_of data ''parent_id'' = Some v"
  show "Channel_from_data ext data http = Channel_from_data ext (without_key ''parent_id'' data) http"
    by (rule channel_falsy_parent_id(1) [OF k assms])
  show "Channel_parent_id c = None" if "Channel_from_data ext data http = Inr c" for c
    by (rule channel_falsy_parent_id(2) [OF k assms that])
next
  assume k: "map_of data ''owner_id'' = Some v"
  show "Guild_from_data ext data http = Guild_from_data ext (without_key ''owner_id'' data) http"
    by (rule guild_falsy_owner_id(1) [OF k assms])
  show "Guild_owner_id g = None" if "Guild_from_data ext data http = Inr g" for g
    by (rule guild_falsy_owner_id(2) [OF k assms that])
next
  assume k: "map_of data ''id'' = Some v"
  show "PartialEmoji_from_data (str_to_int ext) data
          = PartialEmoji_from_data (str_to_int ext) (without_key ''id'' data)"
    by (rule partial_emoji_falsy_id(1) [OF k assms])
  show "PartialEmoji_id p = None" if "PartialEmoji_from_data (str_to_int ext) data = Inr p" for p
    by (rule partial_emoji_falsy_id(2) [OF k assms that])
qed

theorem falsy_optional_id_is_None_witness:
  "(case Channel_from_data example_ext zero_ids_channel None of
      Inl e \<Rightarrow> False
    | Inr c \<Rightarrow> Channel_guild_id c = None \<and> Channel_parent_id c = None)
   \<and> (case Guild_from_data example_ext zero_ids_guild None of
      Inl e \<Rightarrow> False
    | Inr g \<Rightarrow> Guild_owner_id g = None)
   \<and> (case Message_from_data example_ext zero_ids_message None of
      Inl e \<Rightarrow> False
    | Inr m \<Rightarrow> Message_guild_id m = None)
   \<and> (case PartialEmoji_from_data decimal_literal zero_id_emoji of
      Inl e \<Rightarrow> False
    | Inr p \<Rightarrow> PartialEmoji_id p = None)"
proof -
  have z: "\<not> truthy (PInt 0)" and e: "\<not> truthy (PStr [])" by simp_all
  have c: "\<exists>c. Channel_from_data example_ext zero_ids_channel None = Inr c"
    by (simp add: Channel_from_data_def example_ext_def zero_ids_channel_def bind_err_def item_def
        get_def get_default_def int_if_truthy_def decimal_literal_def digit_val_def)
  have g: "\<exists>g. Guild_from_data example_ext zero_ids_guild None = Inr g"
    by (simp add: Guild_from_data_def example_ext_def zero_ids_guild_def bind_err_def item_def
        get_def get_default_def int_if_truthy_def)
  have m: "\<exists>m. Message_from_data example_ext zero_ids_message None = Inr m"
    by (simp add: Message_from_data_def example_ext_def zero_ids_message_def bind_err_def item_def
        get_def get_default_def int_if_truthy_def decimal_literal_def digit_val_def)
  have p: "\<exists>p. PartialEmoji_from_data decimal_literal zero_id_emoji = Inr p"
    by (simp add: PartialEmoji_from_data_def zero_id_emoji_def bind_err_def get_def get_default_def)
  have s: "str_to_int example_ext = decimal_literal" by (simp add: example_ext_def)
  have k1: "map_of zero_ids_channel ''guild_id'' = Some (PInt 0)"
    and k2: "map_of zero_ids_channel ''parent_id'' = Some (PStr [])"
    and k3: "map_of zero_ids_guild ''owner_id'' = Some (PInt 0)"
    and k4: "map_of zero_ids_message ''guild_id'' = Some (PStr [])"
    and k5: "map_of zero_id_emoji ''id'' = Some (PInt 0)"
    by (simp_all add: zero_ids_channel_def zero_ids_guild_def zero_ids_message_def zero_id_emoji_def)
  note t = falsy_optional_id_is_None
  from c obtain c0 where c0: "Channel_from_data example_ext zero_ids_channel None = Inr c0" ..
  from g obtain g0 where g0: "Guild_from_data example_ext zero_ids_guild None = Inr g0" ..
  from m obtain m0 where m0: "Message_from_data example_ext zero_ids_message None = Inr m0" ..
  from p obtain p0 where p0: "PartialEmoji_from_data decimal_literal zero_id_emoji = Inr p0" ..
  have r1: "Channel_guild_id c0 = None"
    by (rule t [OF z, THEN conjunct1, THEN mp, OF k1, THEN conjunct2, THEN spec, THEN mp, OF c0])
  have r2: "Channel_parent_id c0 = None"
    by (rule t [OF e, THEN conjunct2, THEN conjunct1, THEN mp, OF k2, THEN conjunct2,
          THEN spec, THEN mp, OF c0])
  have r3: "Guild_owner_id g0 = None"
    by (rule t [OF z, THEN conjunct2, THEN conjunct2, THEN conjunct1, THEN mp, OF k3,
          THEN conjunct2, THEN spec, THEN mp, OF g0])
  have r4: "Message_guild_id m0 = None"
    by (rule t [OF e, THEN conjunct2, THEN conjunct2, THEN conjunct2, THEN conjunct1, THEN mp,
          OF k4, THEN conjunct2, THEN spec, THEN mp, OF m0])
  have r5: "PartialEmoji_id p0 = None"
    by (rule t [OF z, of _ example_ext, unfolded s, THEN conjunct2, THEN conjunct2,
          THEN conjunct2, THEN conjunct2, THEN mp, OF k5, THEN conjunct2, THEN spec, THEN mp,
          OF p0])
  show ?thesis
    by (simp add: c0 g0 m0 p0 r1 r2 r3 r4 r5)
qed

section \<open>Properties of \<open>Guild.fetch_emojis\<close>\<close>

lemma map_err_Inr:
  "map_err f xs = Inr ys \<Longrightarrow> length ys = length xs \<and> (\<forall>i < length xs. f (xs ! i) = Inr (ys ! i))"
proof (induction xs arbitrary: ys)
  case Nil
  then show ?case by simp
next
  case (Cons x xs)
  then obtain y ys' where y: "f x = Inr y" and ys': "map_err f xs = Inr ys'" and eq: "ys = y # ys'"
    by (auto split: sum.splits)
  from Cons.IH [OF ys'] y eq show ?case
    by (auto simp: nth_Cons split: nat.splits)
qed

lemma map_err_ok:
  "(\<forall>x \<in> set xs. is_ok (f x)) \<Longrightarrow> is_ok (map_err f xs)"
  by (induction xs) (auto simp: is_ok_iff)

lemma Emoji_from_data_guild_id:
  "Emoji_from_data ext d http (Some g) = Inr e \<Longrightarrow> Emoji_guild_id e = Some g"
  unfolding Emoji_from_data_def
  by (elim bind_err_InrE) auto

lemma Emoji_from_data_ok:
  "is_ok (Emoji_from_data ext d http (Some g))
     \<longleftrightarrow> is_ok (bind_err (item d ''id'') (py_int (str_to_int ext)))"
  by (auto simp: Emoji_from_data_def is_ok_iff bind_err_Inr_iff)

text \<open>
  C8: for a bound guild and every list of emoji payloads the transport returns,
  \<open>fetch_emojis\<close> yields one emoji per payload, in order, each hydrated with
  \<open>guild_id\<close> equal to the guild's own id, whether or not the payload has the field;
  and it does return them when every payload has an \<open>id\<close> that \<open>int\<close> accepts.
\<close>

theorem fetch_emojis_injects_guild_id:
  assumes bound: "Guild_http g = Some h"
      and resp: "get_guild_emojis h (Guild_id g) w = (Inr data, w')"
  shows "(\<forall>es. Guild_fetch_emojis ext g w = (Inr es, w') \<longrightarrow>
            length es = length data
            \<and> (\<forall>i < length data.
                  Emoji_from_data ext (data ! i) (Some h) (Some (Guild_id g)) = Inr (es ! i)
                  \<and> Emoji_guild_id (es ! i) = Some (Guild_id g)))
       \<and> ((\<forall>d \<in> set data. is_ok (bind_err (item d ''id'') (py_int (str_to_int ext))))
            \<longrightarrow> (\<exists>es. Guild_fetch_emojis ext g w = (Inr es, w')))"
proof -
  let ?f = "\<lambda>d. Emoji_from_data ext d (Some h) (Some (Guild_id g))"
  have f: "Guild_fetch_emojis ext g w = (map_err ?f data, w')"
    by (simp add: Guild_fetch_emojis_def bound resp)
  have 1: "length es = length data
            \<and> (\<forall>i < length data. ?f (data ! i) = Inr (es ! i)
                  \<and> Emoji_guild_id (es ! i) = Some (Guild_id g))"
    if "Guild_fetch_emojis ext g w = (Inr es, w')" for es
  proof -
    from that f have "map_err ?f data = Inr es" by simp
    from map_err_Inr [OF this] show ?thesis
      by (auto intro: Emoji_from_data_guild_id)
  qed
  have 2: "\<exists>es. Guild_fetch_emojis ext g w = (Inr es, w')"
    if "\<forall>d \<in> set data. is_ok (bind_err (item d ''id'') (py_int (str_to_int ext)))"
  proof -
    from that have "\<forall>d \<in> set data. is_ok (?f d)"
      by (simp add: Emoji_from_data_ok)
    then have "is_ok (map_err ?f data)" by (rule map_err_ok)
    with f show ?thesis by (auto simp: is_ok_iff)
  qed
  from 1 2 show ?thesis by blast
qed

theorem fetch_emojis_injects_guild_id_witness:
  "get_guild_emojis example_http 99 0
     = (Inr [[(''id'', PStr ''1''), (''name'', PStr ''party'')],
             [(''id'', PInt 2), (''name'', PStr ''wave'')]], 1)
   \<and> (case Guild_fetch_emojis example_ext example_guild 0 of
         (Inl e, w) \<Rightarrow> False
       | (Inr es, w) \<Rightarrow> map Emoji_guild_id es = [Some 99, Some 99] \<and> w = 1)"
proof -
  let ?data = "[[(''id'', PStr ''1''), (''name'', PStr ''party'')],
                [(''id'', PInt 2), (''name'', PStr ''wave'')]]"
  have b: "Guild_http example_guild = Some example_http"
    and i: "Guild_id example_guild = 99"
    by (simp_all add: example_guild_def)
  have r: "get_guild_emojis example_http (Guild_id example_guild) 0 = (Inr ?data, 1)"
    by (simp add: example_http_def)
  have ok: "\<forall>d \<in> set ?data. is_ok (bind_err (item d ''id'') (py_int (str_to_int example_ext)))"
    by (simp add: is_ok_def bind_err_def item_def example_ext_def decimal_literal_def digit_val_def)
  note t = fetch_emojis_injects_guild_id [OF b r, of example_ext]
  from t [THEN conjunct2, THEN mp, OF ok]
  obtain es where es: "Guild_fetch_emojis example_ext example_guild 0 = (Inr es, 1)" ..
  from t [THEN conjunct1, THEN spec, THEN mp, OF es]
  have l: "length es = 2" and g0: "Emoji_guild_id (es ! 0) = Some 99"
    and g1: "Emoji_guild_id (es ! 1) = Some 99"
    by (simp_all add: i)
  from l obtain e0 e1 where "es = [e0, e1]"
    by (cases es; cases "tl es") auto
  with g0 g1 have "map Emoji_guild_id es = [Some 99, Some 99]" by simp
  with es r i show ?thesis by simp
qed

end
